theory Spec2Isabelle
  imports Complex_Main
begin

section \<open>Data model\<close>

text \<open>
  The development embeds the assembled planar multibody model of libmbse
  (\<^verbatim>\<open>CAssembledRigidModel_common.cpp\<close>), the symbolic assembly of a model definition
  (\<^verbatim>\<open>ModelDefinition::assembleRigidMBS\<close>) and the gyroscope factor
  (\<^verbatim>\<open>FactorGyroscope.cpp\<close>). The constant-distance constraint and the two constraint
  factors, whose code is not among the sources, are modelled from the specification.

  Conventions.
  \<^item> A C++ \<^verbatim>\<open>double\<close> that holds a number is a \<^typ>\<open>real\<close>: rounding, overflow and
    underflow are not modelled. The quotient \<^verbatim>\<open>1.0 / x\<close> at \<^verbatim>\<open>x == 0\<close>, which is \<^verbatim>\<open>Inf\<close> for
    a double and which raises nothing, is modelled by \<open>fp_inv\<close> below; values computed
    from it are of type \<open>fp\<close>. A value \<open>NonFinite\<close> of the model is a double that is not
    finite; a value \<open>Finite v\<close> is the result \<open>v\<close> over the reals, and says nothing of the
    overflow of the doubles on the way (\<^verbatim>\<open>1.0 / x\<close> is \<^verbatim>\<open>Inf\<close> also for a subnormal \<open>x\<close>, and
    the norm of a tiny vector can round to zero).
  \<^item> A \<^verbatim>\<open>size_t\<close> index is a \<^typ>\<open>nat\<close>. The sentinel \<^verbatim>\<open>INVALID_DOF\<close> of the absent
    header is the value \<^term>\<open>None\<close> of an optional index.
  \<^item> The members are named as \<^verbatim>\<open>FactorGyroscope.cpp\<close> names them (\<^verbatim>\<open>m_q\<close>, \<^verbatim>\<open>m_dotq\<close>,
    \<^verbatim>\<open>m_points2DOFs\<close>, \<^verbatim>\<open>m_parent\<close>); \<^verbatim>\<open>CAssembledRigidModel_common.cpp\<close> names the
    same members \<^verbatim>\<open>q_\<close>, \<^verbatim>\<open>dotq_\<close>, \<^verbatim>\<open>points2DOFs_\<close>, \<^verbatim>\<open>parent_\<close>, which are not
    identifiers of the logic.
  \<^item> A \<^verbatim>\<open>throw\<close>, a failed \<^verbatim>\<open>ASSERT_\<close> and an out-of-range access are values
    \<^term>\<open>Inl e\<close> of a sum type. Checks compiled only into debug builds
    (\<^verbatim>\<open>ASSERTDEB_\<close>, \<^verbatim>\<open>#ifdef _DEBUG\<close>) depend on a parameter \<open>debug\<close>.
\<close>

datatype error =
    InconsistentVectorLengths  \<comment> \<open>\<^verbatim>\<open>"Inconsistent vector lengths!"\<close>\<close>
  | EmptyStateVector           \<comment> \<open>\<^verbatim>\<open>"Empty state vector!"\<close>\<close>
  | ZeroNaturalCoordinateDOFs  \<comment> \<open>\<^verbatim>\<open>"Trying to assemble model with 0 Natural Coordinate DOFs"\<close>\<close>
  | UnexpectedPointDOF         \<comment> \<open>\<^verbatim>\<open>"Unexpected value for DOFs_[i].point_dof"\<close>\<close>
  | UnknownRelativeCoordinate  \<comment> \<open>\<^verbatim>\<open>"Unknown type of relative coordinate"\<close>\<close>
  | InvalidNumberOfPoints nat  \<comment> \<open>\<^verbatim>\<open>"Body has an invalid number of points (=%u), valid are >=2"\<close>\<close>
  | AssertionFailed            \<comment> \<open>a failed \<^verbatim>\<open>ASSERT_\<close>, \<^verbatim>\<open>ASSERT_BELOW_\<close> or \<^verbatim>\<open>ASSERTDEB_\<close>\<close>
  | OutOfRange                 \<comment> \<open>\<^verbatim>\<open>std::out_of_range\<close> of \<^verbatim>\<open>vector::at\<close>\<close>
  | OutOfBounds                \<comment> \<open>an unchecked \<^verbatim>\<open>operator[]\<close> outside the vector:
                                   undefined behaviour, the model stops there\<close>

fun bind_result :: "error + 'a \<Rightarrow> ('a \<Rightarrow> error + 'b) \<Rightarrow> error + 'b" where
  "bind_result (Inl e) f = Inl e"
| "bind_result (Inr v) f = f v"

text \<open>\<^verbatim>\<open>v.at(i)\<close> and \<^verbatim>\<open>v[i]\<close> on a vector.\<close>

definition vec_at :: "'a list \<Rightarrow> nat \<Rightarrow> error + 'a" where
  "vec_at v i = (if i < length v then Inr (v ! i) else Inl OutOfRange)"

definition vec_get :: "'a list \<Rightarrow> nat \<Rightarrow> error + 'a" where
  "vec_get v i = (if i < length v then Inr (v ! i) else Inl OutOfBounds)"

text \<open>
  A value computed through a quotient: \<open>Finite v\<close>, with \<open>v\<close> the value over the reals,
  when every divisor was non-zero, \<open>NonFinite\<close> when a division by zero was executed, so
  that the doubles computed from it are \<^verbatim>\<open>Inf\<close> or \<^verbatim>\<open>NaN\<close> (a non-finite double stays
  non-finite under \<^verbatim>\<open>+\<close>, \<^verbatim>\<open>-\<close> and \<^verbatim>\<open>*\<close> with finite operands). Only the division by an
  exact zero is modelled: the reciprocal of a non-zero divisor is taken over the reals.
\<close>

datatype 'a fp = Finite 'a | NonFinite

definition fp_inv :: "real \<Rightarrow> real fp" where
  "fp_inv d = (if d = 0 then NonFinite else Finite (1 / d))"

text \<open>
  \<^verbatim>\<open>mrpt::math::TPoint2D\<close>, a library type: two doubles \<open>x\<close>, \<open>y\<close>, with the difference of
  two points, the product with a scalar and the Euclidean \<^verbatim>\<open>norm()\<close>.
\<close>

datatype TPoint2D = TPoint2D (px: real) (py: real)

definition pt_sub :: "TPoint2D \<Rightarrow> TPoint2D \<Rightarrow> TPoint2D" where
  "pt_sub a b = TPoint2D (px a - px b) (py a - py b)"

definition pt_scale :: "TPoint2D \<Rightarrow> real \<Rightarrow> TPoint2D" where
  "pt_scale a k = TPoint2D (px a * k) (py a * k)"

definition norm_pt :: "TPoint2D \<Rightarrow> real" where
  "norm_pt a = sqrt (px a * px a + py a * py a)"

text \<open>
  Modelled from the spec: the declaration of \<^verbatim>\<open>Point2\<close> is in an absent header. A point is
  a 2D coordinate and a fixed/free flag; the sources read \<^verbatim>\<open>coords\<close> and \<^verbatim>\<open>fixed\<close>.
\<close>

record Point2 =
  coords :: TPoint2D
  fixed :: bool

text \<open>\<^verbatim>\<open>Eigen::Matrix2d\<close>, row by row.\<close>

datatype Matrix2d = Matrix2d real real real real

text \<open>
  Modelled from the spec: the declaration of \<^verbatim>\<open>CBody\<close> is in an absent header. A body is
  an ordered list of point indices with a scalar length, a mass and a centre of gravity in
  the local frame. The fields are the members the sources read: \<^verbatim>\<open>points\<close>, \<^verbatim>\<open>length()\<close>,
  \<^verbatim>\<open>mass()\<close>, \<^verbatim>\<open>cog()\<close> and the mass sub-matrices \<^verbatim>\<open>getM00()\<close>, \<^verbatim>\<open>getM01()\<close>, \<^verbatim>\<open>getM11()\<close>,
  which are taken as given. \<^verbatim>\<open>length()\<close> returns a reference to a stored number that the
  author of the model sets.
\<close>

record CBody =
  points :: "nat list"
  body_length :: real
  mass :: real
  cog :: TPoint2D
  getM00 :: Matrix2d
  getM01 :: Matrix2d
  getM11 :: Matrix2d

text \<open>
  Modelled from the spec: the enumeration \<^verbatim>\<open>PointDOF\<close> and the entries of the list of
  Euclidean DOFs (a point index and an axis) are declared in an absent header. The
  sources name the enumerators \<^verbatim>\<open>PointDOF::X\<close>, \<^verbatim>\<open>PointDOF::Y\<close> and \<^verbatim>\<open>PointDOF::Z\<close>
  (\<^verbatim>\<open>dof2letter\<close>) and the members \<^verbatim>\<open>point_index\<close>, \<^verbatim>\<open>point_dof\<close>.
\<close>

datatype PointDOF = PointDOF_X | PointDOF_Y | PointDOF_Z

record NaturalCoordinateDOF =
  point_index :: nat
  point_dof :: PointDOF

text \<open>
  Modelled from the spec: \<^verbatim>\<open>RelativeDOF\<close> is a \<^verbatim>\<open>std::variant\<close> declared in an absent header.
  The constructor of the assembled model tests for the alternatives \<^verbatim>\<open>RelativeAngleDOF\<close>
  (three point indices) and \<^verbatim>\<open>RelativeAngleAbsoluteDOF\<close> (two point indices) and throws on
  anything else, which is \<open>UnknownRelativeDOF\<close> here.
\<close>

datatype RelativeDOF =
    RelativeAngleDOF nat nat nat
  | RelativeAngleAbsoluteDOF nat nat
  | UnknownRelativeDOF

text \<open>
  Modelled from the spec: the constraint classes are in absent files. A constraint is
  the data its constructor is given in the sources: two point indices and a length, or
  the point indices and the column in \<open>q\<close> of a relative coordinate.
\<close>

datatype CConstraint =
    ConstraintConstantDistance nat nat real
  | CConstraintRelativeAngle nat nat nat nat
  | CConstraintRelativeAngleAbsolute nat nat nat

text \<open>
  Modelled from the spec: \<^verbatim>\<open>ModelDefinition\<close> and \<^verbatim>\<open>TSymbolicAssembledModel\<close> are declared
  in absent headers. The fields are the members the sources read and write: the point
  table \<^verbatim>\<open>points_\<close>, the bodies \<^verbatim>\<open>bodies_\<close>, the constraints behind \<^verbatim>\<open>getConstraints()\<close> and
  \<^verbatim>\<open>addConstraint\<close>, the flag \<^verbatim>\<open>already_added_fixed_len_constraints_\<close>; and \<^verbatim>\<open>model\<close>, \<^verbatim>\<open>DOFs\<close>,
  \<^verbatim>\<open>rDOFs\<close>.
\<close>

record ModelDefinition =
  m_points :: "Point2 list"
  m_bodies :: "CBody list"
  getConstraints :: "CConstraint list"
  already_added_fixed_len_constraints :: bool

record TSymbolicAssembledModel =
  model :: ModelDefinition
  DOFs :: "NaturalCoordinateDOF list"
  rDOFs :: "RelativeDOF list"

text \<open>
  Modelled from the spec: \<^verbatim>\<open>Point2ToDOF\<close> and \<^verbatim>\<open>INVALID_DOF\<close> are declared in an absent
  header. For every point, the column of its \<open>x\<close> and of its \<open>y\<close> in \<open>q\<close>, or "invalid" when
  the coordinate is fixed; \<^term>\<open>None\<close> is \<^verbatim>\<open>INVALID_DOF\<close>, and a default-constructed entry
  is invalid in both fields.
\<close>

record Point2ToDOF =
  dof_x :: "nat option"
  dof_y :: "nat option"

text \<open>
  The members of \<^verbatim>\<open>CAssembledRigidModel\<close> that the sources under study read and write.
  The sparse Jacobians are left out; of the constraint-sized vectors only \<^verbatim>\<open>Phi_\<close> is
  kept, for the size check of \<^verbatim>\<open>copyStateFrom\<close>.
\<close>

record CAssembledRigidModel =
  m_parent :: ModelDefinition
  m_gravity :: "real \<times> real \<times> real"
  m_q :: "real list"
  m_dotq :: "real list"
  m_ddotq :: "real list"
  m_Q :: "real list"
  m_DOFs :: "NaturalCoordinateDOF list"
  m_rDOFs :: "RelativeDOF list"
  m_points2DOFs :: "Point2ToDOF list"
  m_constraints :: "CConstraint list"
  relCoordinate2Index :: "nat list"
  m_Phi :: "real list"

section \<open>Point accessors\<close>

text \<open>
  Modelled from the spec: \<^verbatim>\<open>ModelDefinition::getPointInfo\<close> is declared in an absent
  header. A point is identified by an index into the global point table: the entry of
  the table at the index; an index outside the table is an out-of-bounds access.
\<close>

definition getPointInfo :: "ModelDefinition \<Rightarrow> nat \<Rightarrow> error + Point2" where
  "getPointInfo md i = vec_get (m_points md) i"

definition getPointCurrentCoords :: "CAssembledRigidModel \<Rightarrow> nat \<Rightarrow> error + TPoint2D" where
  "getPointCurrentCoords a pt_idx =
     bind_result (getPointInfo (m_parent a) pt_idx) (\<lambda>pt_info.
     bind_result (vec_get (m_points2DOFs a) pt_idx) (\<lambda>pt_dofs.
     bind_result (case dof_x pt_dofs of Some i \<Rightarrow> vec_get (m_q a) i
                                      | None \<Rightarrow> Inr (px (coords pt_info))) (\<lambda>x.
     bind_result (case dof_y pt_dofs of Some i \<Rightarrow> vec_get (m_q a) i
                                      | None \<Rightarrow> Inr (py (coords pt_info))) (\<lambda>y.
     Inr (TPoint2D x y)))))"

definition getPointCurrentVelocity :: "CAssembledRigidModel \<Rightarrow> nat \<Rightarrow> error + TPoint2D" where
  "getPointCurrentVelocity a pt_idx =
     bind_result (vec_get (m_points2DOFs a) pt_idx) (\<lambda>pt_dofs.
     bind_result (case dof_x pt_dofs of Some i \<Rightarrow> vec_get (m_dotq a) i | None \<Rightarrow> Inr 0) (\<lambda>x.
     bind_result (case dof_y pt_dofs of Some i \<Rightarrow> vec_get (m_dotq a) i | None \<Rightarrow> Inr 0) (\<lambda>y.
     Inr (TPoint2D x y))))"

section \<open>Construction of the assembled model\<close>

text \<open>
  The first loop of the constructor: for each Euclidean DOF \<open>i\<close>, in order, the initial
  value of \<open>q[i]\<close> and the entry of the reverse table. The state of the loop is the pair
  of \<open>q\<close> and \<open>points2DOFs\<close>.
\<close>

fun init_natural_dofs ::
  "ModelDefinition \<Rightarrow> NaturalCoordinateDOF list \<Rightarrow> nat \<Rightarrow> real list \<times> Point2ToDOF list
   \<Rightarrow> error + (real list \<times> Point2ToDOF list)" where
  "init_natural_dofs md [] i st = Inr st"
| "init_natural_dofs md (d # ds) i st =
     (let pt_idx = point_index d in
      bind_result (getPointInfo md pt_idx) (\<lambda>pt.
        case point_dof d of
          PointDOF_X \<Rightarrow>
            bind_result (vec_at (snd st) pt_idx) (\<lambda>e.
              init_natural_dofs md ds (Suc i)
                ((fst st)[i := px (coords pt)], (snd st)[pt_idx := e\<lparr>dof_x := Some i\<rparr>]))
        | PointDOF_Y \<Rightarrow>
            bind_result (vec_at (snd st) pt_idx) (\<lambda>e.
              init_natural_dofs md ds (Suc i)
                ((fst st)[i := py (coords pt)], (snd st)[pt_idx := e\<lparr>dof_y := Some i\<rparr>]))
        | PointDOF_Z \<Rightarrow> Inl UnexpectedPointDOF))"

text \<open>
  The loop over the relative coordinates: one constraint per entry, bound to the column
  \<open>nEuclideanDOFs + i\<close>. The state is the pair of \<open>constraints\<close> and
  \<open>relCoordinate2Index\<close>.
\<close>

fun add_relative_constraints ::
  "nat \<Rightarrow> RelativeDOF list \<Rightarrow> nat \<Rightarrow> CConstraint list \<times> nat list
   \<Rightarrow> error + (CConstraint list \<times> nat list)" where
  "add_relative_constraints nE [] i st = Inr st"
| "add_relative_constraints nE (r # rs) i st =
     (let idxInQ = nE + i in
      case r of
        RelativeAngleDOF p0 p1 p2 \<Rightarrow>
          add_relative_constraints nE rs (Suc i)
            (fst st @ [CConstraintRelativeAngle p0 p1 p2 idxInQ], (snd st)[i := idxInQ])
      | RelativeAngleAbsoluteDOF p0 p1 \<Rightarrow>
          add_relative_constraints nE rs (Suc i)
            (fst st @ [CConstraintRelativeAngleAbsolute p0 p1 idxInQ], (snd st)[i := idxInQ])
      | UnknownRelativeDOF \<Rightarrow> Inl UnknownRelativeCoordinate)"

definition DEFAULT_GRAVITY :: "real \<times> real \<times> real" where
  "DEFAULT_GRAVITY = (0, - 981 / 100, 0)"

text \<open>
  The constructor \<^verbatim>\<open>CAssembledRigidModel(armi)\<close>. The calls into the constraint classes
  (\<^verbatim>\<open>clone\<close>, \<^verbatim>\<open>buildSparseStructures\<close>) and \<^verbatim>\<open>defineSparseMatricesColumnCount\<close> belong to
  absent files: a cloned constraint is the constraint, and the sparse structures, whose
  rows those calls add, are left out (\<open>m_Phi\<close> is empty after this function).
\<close>

definition CAssembledRigidModel_ctor ::
  "TSymbolicAssembledModel \<Rightarrow> error + CAssembledRigidModel" where
  "CAssembledRigidModel_ctor armi =
     (let nEuclideanDOFs = length (DOFs armi);
          nRelativeDOFs = length (rDOFs armi);
          nDOFs = nEuclideanDOFs + nRelativeDOFs
      in
      if \<not> nEuclideanDOFs > 0 then Inl ZeroNaturalCoordinateDOFs
      else
        bind_result
          (init_natural_dofs (model armi) (DOFs armi) 0
             (replicate nDOFs 0,
              replicate (length (m_points (model armi))) \<lparr>dof_x = None, dof_y = None\<rparr>))
          (\<lambda>(q, p2d).
        bind_result
          (add_relative_constraints nEuclideanDOFs (rDOFs armi) 0
             (getConstraints (model armi), replicate nRelativeDOFs 0))
          (\<lambda>(cs, r2i).
        Inr \<lparr> m_parent = model armi, m_gravity = DEFAULT_GRAVITY,
              m_q = q, m_dotq = replicate nDOFs 0, m_ddotq = replicate nDOFs 0,
              m_Q = replicate nDOFs 0,
              m_DOFs = DOFs armi, m_rDOFs = rDOFs armi, m_points2DOFs = p2d,
              m_constraints = cs, relCoordinate2Index = r2i, m_Phi = [] \<rparr>)))"

section \<open>Points on a body, state copy, energy\<close>

definition getPointOnBodyCurrentCoords ::
  "bool \<Rightarrow> CAssembledRigidModel \<Rightarrow> nat \<Rightarrow> TPoint2D \<Rightarrow> error + TPoint2D fp" where
  "getPointOnBodyCurrentCoords debug a body_index relative_pt =
     (if debug \<and> \<not> body_index < length (m_bodies (m_parent a)) then Inl AssertionFailed
      else
        bind_result (vec_get (m_bodies (m_parent a)) body_index) (\<lambda>b.
        bind_result (vec_get (points b) 0) (\<lambda>i0.
        bind_result (getPointCurrentCoords a i0) (\<lambda>q0.
        bind_result (vec_get (points b) 1) (\<lambda>i1.
        bind_result (getPointCurrentCoords a i1) (\<lambda>q1.
          let L = body_length b in
          if debug \<and> \<not> L > 0 then Inl AssertionFailed
          else
            Inr (case fp_inv L of
                   NonFinite \<Rightarrow> NonFinite
                 | Finite Linv \<Rightarrow>
                     let u = pt_scale (pt_sub q1 q0) Linv;
                         v = TPoint2D (- py u) (px u)
                     in Finite (TPoint2D
                          (px q0 + px u * px relative_pt + px v * py relative_pt)
                          (py q0 + py u * px relative_pt + py v * py relative_pt)))))))))"

text \<open>
  \<^verbatim>\<open>copyStateFrom\<close>. The size checks exist in debug builds only. The two debug checks
  that the vectors were not reallocated compare addresses and are not modelled.
\<close>

definition copyStateFrom ::
  "bool \<Rightarrow> CAssembledRigidModel \<Rightarrow> CAssembledRigidModel \<Rightarrow> error + CAssembledRigidModel" where
  "copyStateFrom debug this o' =
     (if debug \<and> \<not> (length (m_q this) = length (m_q o')
                     \<and> length (m_dotq this) = length (m_dotq o')
                     \<and> length (m_DOFs this) = length (m_DOFs o')
                     \<and> length (m_Phi this) = length (m_Phi o'))
      then Inl AssertionFailed
      else Inr (this\<lparr>m_q := m_q o', m_dotq := m_dotq o'\<rparr>))"

text \<open>
  \<^verbatim>\<open>TEnergyValues\<close>, declared in an absent header, with the three members that
  \<^verbatim>\<open>evaluateEnergy\<close> writes. The kinetic energy is a sum of products of finite numbers;
  the potential and the total energy go through the quotient of
  \<open>getPointOnBodyCurrentCoords\<close>.
\<close>

record TEnergyValues =
  E_kin :: real
  E_pot :: "real fp"
  E_total :: "real fp"

text \<open>\<open>bilinear M a b\<close> is the entry of the \<open>1 \<times> 1\<close> product \<^verbatim>\<open>a.transpose() * M * b\<close>.\<close>

fun bilinear :: "Matrix2d \<Rightarrow> TPoint2D \<Rightarrow> TPoint2D \<Rightarrow> real" where
  "bilinear (Matrix2d m00 m01 m10 m11) a b =
     px a * (m00 * px b + m01 * py b) + py a * (m10 * px b + m11 * py b)"

fun fp_sub :: "real fp \<Rightarrow> real fp \<Rightarrow> real fp" where
  "fp_sub (Finite a) (Finite b) = Finite (a - b)"
| "fp_sub _ _ = NonFinite"

fun fp_add :: "real fp \<Rightarrow> real fp \<Rightarrow> real fp" where
  "fp_add (Finite a) (Finite b) = Finite (a + b)"
| "fp_add _ _ = NonFinite"

fun fp_map :: "('a \<Rightarrow> 'b) \<Rightarrow> 'a fp \<Rightarrow> 'b fp" where
  "fp_map f (Finite a) = Finite (f a)"
| "fp_map f NonFinite = NonFinite"

text \<open>The weight term of one body: \<^verbatim>\<open>b.mass() * (g[0] * cog.x + g[1] * cog.y + g[2] * 0)\<close>.\<close>

definition weight_term :: "real \<times> real \<times> real \<Rightarrow> CBody \<Rightarrow> TPoint2D \<Rightarrow> real" where
  "weight_term g b c =
     mass b * (fst g * px c + fst (snd g) * py c + snd (snd g) * 0)"

text \<open>The loop of \<^verbatim>\<open>evaluateEnergy\<close> over the body indices; the state is \<open>(E_kin, E_pot)\<close>.\<close>

fun energy_loop ::
  "bool \<Rightarrow> CAssembledRigidModel \<Rightarrow> nat list \<Rightarrow> real \<times> real fp \<Rightarrow> error + (real \<times> real fp)" where
  "energy_loop debug a [] e = Inr e"
| "energy_loop debug a (i # is) e =
     (let b = m_bodies (m_parent a) ! i in
      bind_result (vec_get (points b) 0) (\<lambda>i0.
      bind_result (getPointCurrentVelocity a i0) (\<lambda>dq0.
      bind_result (vec_get (points b) 1) (\<lambda>i1.
      bind_result (getPointCurrentVelocity a i1) (\<lambda>dq1.
        let kin = fst e + (0.5 * (bilinear (getM00 b) dq0 dq0 + bilinear (getM11 b) dq1 dq1)
                           + bilinear (getM01 b) dq0 dq1)
        in
        bind_result (getPointOnBodyCurrentCoords debug a i (cog b)) (\<lambda>global_cog.
          energy_loop debug a is
            (kin, fp_sub (snd e) (fp_map (weight_term (m_gravity a) b) global_cog))))))))"

definition evaluateEnergy :: "bool \<Rightarrow> CAssembledRigidModel \<Rightarrow> error + TEnergyValues" where
  "evaluateEnergy debug a =
     bind_result (energy_loop debug a [0 ..< length (m_bodies (m_parent a))] (0, Finite 0))
       (\<lambda>(kin, pot). Inr \<lparr> E_kin = kin, E_pot = pot, E_total = fp_add (Finite kin) pot \<rparr>)"

section \<open>Symbolic assembly of a model definition\<close>

text \<open>Step 1 of \<^verbatim>\<open>assembleRigidMBS(armi)\<close>: two DOFs for every point that is not fixed.\<close>

fun collect_natural_dofs ::
  "Point2 list \<Rightarrow> nat \<Rightarrow> NaturalCoordinateDOF list \<Rightarrow> NaturalCoordinateDOF list" where
  "collect_natural_dofs [] i acc = acc"
| "collect_natural_dofs (pt # pts) i acc =
     collect_natural_dofs pts (Suc i)
       (if \<not> fixed pt
        then acc @ [\<lparr>point_index = i, point_dof = PointDOF_X\<rparr>,
                    \<lparr>point_index = i, point_dof = PointDOF_Y\<rparr>]
        else acc)"

text \<open>
  The pairs of the \<^verbatim>\<open>default\<close> branch: \<^verbatim>\<open>{{0, 1}}\<close>, then for \<open>j\<close> from 2 up to the number
  of points \<^verbatim>\<open>emplace_back(0, j)\<close> and \<^verbatim>\<open>emplace_back(1, j)\<close>.
\<close>

fun emplace_pairs :: "nat list \<Rightarrow> (nat \<times> nat) list \<Rightarrow> (nat \<times> nat) list" where
  "emplace_pairs [] pairs = pairs"
| "emplace_pairs (j # js) pairs = emplace_pairs js ((pairs @ [(0, j)]) @ [(1, j)])"

definition default_pairs :: "nat \<Rightarrow> (nat \<times> nat) list" where
  "default_pairs nPts = emplace_pairs [2 ..< nPts] [(0, 1)]"

text \<open>
  The loop \<^verbatim>\<open>for (const auto& p : pairs)\<close>: two assertions, the distance of the two points
  in the point table, and \<^verbatim>\<open>addConstraint\<close>, which appends to the constraints of the
  definition. The result is the constraint list reached and the exception, if any:
  constraints appended before a failed assertion stay in the definition.
\<close>

fun add_distance_constraints ::
  "Point2 list \<Rightarrow> CBody \<Rightarrow> (nat \<times> nat) list \<Rightarrow> CConstraint list
   \<Rightarrow> CConstraint list \<times> error option" where
  "add_distance_constraints pts b [] cs = (cs, None)"
| "add_distance_constraints pts b (p # ps) cs =
     (let i = fst p; j = snd p in
      if \<not> points b ! i < length pts then (cs, Some AssertionFailed)
      else if \<not> points b ! j < length pts then (cs, Some AssertionFailed)
      else
        let L = norm_pt (pt_sub (coords (pts ! (points b ! i))) (coords (pts ! (points b ! j))))
        in add_distance_constraints pts b ps
             (cs @ [ConstraintConstantDistance (points b ! i) (points b ! j) L]))"

text \<open>The \<^verbatim>\<open>switch (nPts)\<close> on the number of points of one body.\<close>

definition add_body_constraints ::
  "Point2 list \<Rightarrow> CBody \<Rightarrow> CConstraint list \<Rightarrow> CConstraint list \<times> error option" where
  "add_body_constraints pts b cs =
     (let nPts = length (points b) in
      if nPts = 0 \<or> nPts = 1 then (cs, Some (InvalidNumberOfPoints nPts))
      else if nPts = 2 then
        (if \<not> points b ! 0 < length pts then (cs, Some AssertionFailed)
         else if \<not> points b ! 1 < length pts then (cs, Some AssertionFailed)
         else (cs @ [ConstraintConstantDistance (points b ! 0) (points b ! 1) (body_length b)],
               None))
      else if nPts = 3 then add_distance_constraints pts b [(0, 1), (0, 2), (1, 2)] cs
      else add_distance_constraints pts b (default_pairs nPts) cs)"

fun add_fixed_len_constraints ::
  "Point2 list \<Rightarrow> CBody list \<Rightarrow> CConstraint list \<Rightarrow> CConstraint list \<times> error option" where
  "add_fixed_len_constraints pts [] cs = (cs, None)"
| "add_fixed_len_constraints pts (b # bs) cs =
     (case add_body_constraints pts b cs of
        (cs', Some e) \<Rightarrow> (cs', Some e)
      | (cs', None) \<Rightarrow> add_fixed_len_constraints pts bs cs')"

text \<open>
  \<^verbatim>\<open>ModelDefinition::assembleRigidMBS(armi)\<close>. The method is \<^verbatim>\<open>const\<close> and changes the
  definition through \<^verbatim>\<open>const_cast\<close> and a mutable flag, so the definition is returned
  with the outcome. \<open>armi.model\<close> refers to the definition itself.
\<close>

definition assembleRigidMBS ::
  "ModelDefinition \<Rightarrow> ModelDefinition \<times> (error + TSymbolicAssembledModel)" where
  "assembleRigidMBS md =
     (let dofs = collect_natural_dofs (m_points md) 0 [] in
      if \<not> already_added_fixed_len_constraints md then
        (case add_fixed_len_constraints (m_points md) (m_bodies md) (getConstraints md) of
           (cs, Some e) \<Rightarrow> (md\<lparr>getConstraints := cs\<rparr>, Inl e)
         | (cs, None) \<Rightarrow>
             (let md' = md\<lparr>getConstraints := cs, already_added_fixed_len_constraints := True\<rparr>
              in (md', Inr \<lparr>model = md', DOFs = dofs, rDOFs = []\<rparr>)))
      else (md, Inr \<lparr>model = md, DOFs = dofs, rDOFs = []\<rparr>))"

text \<open>\<^verbatim>\<open>ModelDefinition::assembleRigidMBS(relativeCoordinates)\<close>: both steps.\<close>

definition assembleRigidMBS_model ::
  "ModelDefinition \<Rightarrow> RelativeDOF list option
   \<Rightarrow> ModelDefinition \<times> (error + CAssembledRigidModel)" where
  "assembleRigidMBS_model md relativeCoordinates =
     (case assembleRigidMBS md of
        (md', Inl e) \<Rightarrow> (md', Inl e)
      | (md', Inr armi) \<Rightarrow>
          (md', CAssembledRigidModel_ctor
                  (case relativeCoordinates of
                     Some r \<Rightarrow> armi\<lparr>rDOFs := r\<rparr>
                   | None \<Rightarrow> armi)))"

section \<open>The gyroscope factor\<close>

text \<open>
  The members of \<^verbatim>\<open>FactorGyroscope\<close> that \<^verbatim>\<open>evaluateError\<close> reads, besides the pointer
  \<^verbatim>\<open>m_arm\<close> to the shared model.
\<close>

record FactorGyroscope =
  m_body_idx :: nat
  m_reading :: real

text \<open>
  What one call returns: the error vector and the rows \<open>H1\<close>, \<open>H2\<close> that were asked for.
\<close>

record gyro_output =
  err :: "real list"
  H1 :: "real list option"
  H2 :: "real list option"

text \<open>\<^verbatim>\<open>Hv(0, i) = x\<close> on a \<open>1 \<times> n\<close> matrix.\<close>

definition row_set :: "real list \<Rightarrow> nat \<Rightarrow> real \<Rightarrow> error + real list" where
  "row_set Hv i v = (if i < length Hv then Inr (Hv[i := v]) else Inl OutOfBounds)"

definition fill_column :: "nat option \<Rightarrow> real \<Rightarrow> real list \<Rightarrow> error + real list" where
  "fill_column dof v Hv = (case dof of Some i \<Rightarrow> row_set Hv i v | None \<Rightarrow> Inr Hv)"

text \<open>The block \<^verbatim>\<open>if (H1)\<close>: the row of derivatives of the error by \<open>q_k\<close>.\<close>

definition fill_H1 ::
  "nat \<Rightarrow> Point2ToDOF \<Rightarrow> Point2ToDOF \<Rightarrow> real \<Rightarrow> TPoint2D \<Rightarrow> TPoint2D \<Rightarrow> TPoint2D \<Rightarrow> TPoint2D
   \<Rightarrow> error + real list" where
  "fill_H1 n d0 d1 len_inv pt0 pt1 pt0vel pt1vel =
     bind_result (fill_column (dof_x d0)
        (len_inv * len_inv * (py pt0vel - py pt1vel) -
         2 * len_inv * len_inv * len_inv * len_inv *
           (px pt0 - px pt1) *
           ((px pt0 - px pt1) * (py pt0vel - py pt1vel) -
            (py pt0 - py pt1) * (px pt0vel - px pt1vel)))
        (replicate n 0)) (\<lambda>Hv.
     bind_result (fill_column (dof_y d0)
        (- len_inv * len_inv * (px pt0vel - px pt1vel) +
         2 * len_inv * len_inv * len_inv * len_inv *
           (py pt0 - py pt1) *
           ((py pt0 - py pt1) * (px pt0vel - px pt1vel) -
            (px pt0 - px pt1) * (py pt0vel - py pt1vel)))
        Hv) (\<lambda>Hv.
     bind_result (fill_column (dof_x d1)
        (- len_inv * len_inv * (py pt0vel - py pt1vel) +
         2 * len_inv * len_inv * len_inv * len_inv *
           (px pt0 - px pt1) *
           ((px pt0 - px pt1) * (py pt0vel - py pt1vel) -
            (py pt0 - py pt1) * (px pt0vel - px pt1vel)))
        Hv) (\<lambda>Hv.
     fill_column (dof_y d1)
        (len_inv * len_inv * (px pt0vel - px pt1vel) +
         2 * len_inv * len_inv * len_inv * len_inv *
           (py pt0 - py pt1) *
           (- (py pt0 - py pt1) * (px pt0vel - px pt1vel) +
            (px pt0 - px pt1) * (py pt0vel - py pt1vel)))
        Hv)))"

text \<open>The block \<^verbatim>\<open>if (H2)\<close>: the row of derivatives of the error by \<open>dq_k\<close>.\<close>

definition fill_H2 ::
  "nat \<Rightarrow> Point2ToDOF \<Rightarrow> Point2ToDOF \<Rightarrow> real \<Rightarrow> TPoint2D \<Rightarrow> TPoint2D \<Rightarrow> error + real list" where
  "fill_H2 n d0 d1 len_inv pt0 pt1 =
     bind_result (fill_column (dof_x d0) (len_inv * len_inv * (py pt1 - py pt0))
                    (replicate n 0)) (\<lambda>Hv.
     bind_result (fill_column (dof_y d0) (len_inv * len_inv * (px pt0 - px pt1)) Hv) (\<lambda>Hv.
     bind_result (fill_column (dof_x d1) (len_inv * len_inv * (py pt0 - py pt1)) Hv) (\<lambda>Hv.
     fill_column (dof_y d1) (len_inv * len_inv * (px pt1 - px pt0)) Hv)))"

text \<open>
  \<^verbatim>\<open>FactorGyroscope::evaluateError\<close>. The factor holds a shared pointer \<open>m_arm\<close> to the
  assembled model and writes \<open>q_k\<close>, \<open>dq_k\<close> into it, so the model is passed in and
  returned. \<open>wantH1\<close> and \<open>wantH2\<close> say whether the optional references \<open>H1\<close>, \<open>H2\<close> are
  given. The outcome \<open>Inr NonFinite\<close> is a normal return whose error vector holds
  \<^verbatim>\<open>NaN\<close>: with \<open>len = 0\<close> the vector \<open>u\<close> is \<open>(0, 0)\<close>, \<open>len_inv\<close> is \<^verbatim>\<open>Inf\<close> and
  \<open>u *= len_inv\<close> is \<^verbatim>\<open>NaN\<close> in both components.
\<close>

definition evaluateError ::
  "FactorGyroscope \<Rightarrow> CAssembledRigidModel \<Rightarrow> real list \<Rightarrow> real list \<Rightarrow> bool \<Rightarrow> bool
   \<Rightarrow> CAssembledRigidModel \<times> (error + gyro_output fp)" where
  "evaluateError f m_arm q_k dq_k wantH1 wantH2 =
     (let n = length q_k in
      if length dq_k \<noteq> n then (m_arm, Inl InconsistentVectorLengths)
      else if n < 1 then (m_arm, Inl EmptyStateVector)
      else
        let arm = m_arm\<lparr>m_q := q_k, m_dotq := dq_k\<rparr>;
            bodies = m_bodies (m_parent arm)
        in (arm,
          if \<not> m_body_idx f < length bodies then Inl AssertionFailed
          else
            let body = bodies ! m_body_idx f in
            bind_result (vec_get (points body) 0) (\<lambda>pt0_idx.
            bind_result (vec_get (points body) 1) (\<lambda>pt1_idx.
            bind_result (getPointCurrentCoords arm pt0_idx) (\<lambda>pt0.
            bind_result (getPointCurrentCoords arm pt1_idx) (\<lambda>pt1.
            bind_result (getPointCurrentVelocity arm pt0_idx) (\<lambda>pt0vel.
            bind_result (getPointCurrentVelocity arm pt1_idx) (\<lambda>pt1vel.
              let u = pt_sub pt1 pt0;
                  len = norm_pt u
              in
              case fp_inv len of
                NonFinite \<Rightarrow> Inr NonFinite
              | Finite len_inv \<Rightarrow>
                  let u = pt_scale u len_inv;
                      v = TPoint2D (- py u) (px u);
                      rel_vel = pt_sub pt1vel pt0vel;
                      rel_vel_value = px rel_vel * px v + py rel_vel * py v;
                      w = rel_vel_value * len_inv
                  in
                  bind_result
                    (if wantH1 then
                       bind_result (vec_get (m_points2DOFs arm) pt0_idx) (\<lambda>d0.
                       bind_result (vec_get (m_points2DOFs arm) pt1_idx) (\<lambda>d1.
                       bind_result (fill_H1 n d0 d1 len_inv pt0 pt1 pt0vel pt1vel) (\<lambda>Hv.
                         Inr (Some Hv))))
                     else Inr None) (\<lambda>h1.
                  bind_result
                    (if wantH2 then
                       bind_result (vec_get (m_points2DOFs arm) pt0_idx) (\<lambda>d0.
                       bind_result (vec_get (m_points2DOFs arm) pt1_idx) (\<lambda>d1.
                       bind_result (fill_H2 n d0 d1 len_inv pt0 pt1) (\<lambda>Hv.
                         Inr (Some Hv))))
                     else Inr None) (\<lambda>h2.
                  Inr (Finite \<lparr>err = [w - m_reading f], H1 = h1, H2 = h2\<rparr>)))))))))))"

section \<open>The constraint factors\<close>













section \<open>Well-formed assembled models\<close>

text \<open>
  The invariant the constructor establishes and that every operation on the state
  vectors keeps: the reverse table has one entry per point, \<open>q\<close> and \<open>dotq\<close> have the same
  length, every column of the table is a position of \<open>q\<close>, and no column belongs to two
  coordinates.
\<close>

definition dof_below :: "nat \<Rightarrow> nat option \<Rightarrow> bool" where
  "dof_below n dof = (case dof of Some i \<Rightarrow> i < n | None \<Rightarrow> True)"

definition columns_of :: "Point2ToDOF \<Rightarrow> nat list" where
  "columns_of d =
     (case dof_x d of Some i \<Rightarrow> [i] | None \<Rightarrow> []) @ (case dof_y d of Some i \<Rightarrow> [i] | None \<Rightarrow> [])"

definition wf_arm :: "CAssembledRigidModel \<Rightarrow> bool" where
  "wf_arm a \<longleftrightarrow>
     length (m_points2DOFs a) = length (m_points (m_parent a)) \<and>
     length (m_dotq a) = length (m_q a) \<and>
     list_all (\<lambda>d. dof_below (length (m_q a)) (dof_x d) \<and> dof_below (length (m_q a)) (dof_y d))
       (m_points2DOFs a) \<and>
     distinct (concat (map columns_of (m_points2DOFs a)))"

section \<open>A model to evaluate on\<close>

text \<open>
  A pendulum: point 0 fixed at the origin, point 1 free at \<open>(1, 0)\<close>, one rod of
  mass 2 and length 1 between them.
\<close>

definition pendulum :: ModelDefinition where
  "pendulum =
     \<lparr> m_points = [\<lparr>coords = TPoint2D 0 0, fixed = True\<rparr>,
                   \<lparr>coords = TPoint2D 1 0, fixed = False\<rparr>],
       m_bodies = [\<lparr>points = [0, 1], body_length = 1, mass = 2, cog = TPoint2D (1/2) 0,
                    getM00 = Matrix2d (2/3) 0 0 (2/3),
                    getM01 = Matrix2d (1/3) 0 0 (1/3),
                    getM11 = Matrix2d (2/3) 0 0 (2/3)\<rparr>],
       getConstraints = [],
       already_added_fixed_len_constraints = False \<rparr>"

definition pendulum_assembled :: ModelDefinition where
  "pendulum_assembled =
     pendulum\<lparr>getConstraints := [ConstraintConstantDistance 0 1 1],
              already_added_fixed_len_constraints := True\<rparr>"

definition pendulum_arm :: CAssembledRigidModel where
  "pendulum_arm =
     \<lparr> m_parent = pendulum_assembled, m_gravity = DEFAULT_GRAVITY,
       m_q = [1, 0], m_dotq = [0, 0], m_ddotq = [0, 0], m_Q = [0, 0],
       m_DOFs = [\<lparr>point_index = 1, point_dof = PointDOF_X\<rparr>,
                 \<lparr>point_index = 1, point_dof = PointDOF_Y\<rparr>],
       m_rDOFs = [],
       m_points2DOFs = [\<lparr>dof_x = None, dof_y = None\<rparr>, \<lparr>dof_x = Some 0, dof_y = Some 1\<rparr>],
       m_constraints = [ConstraintConstantDistance 0 1 1],
       relCoordinate2Index = [], m_Phi = [] \<rparr>"

text \<open>
  The Euclidean DOF list that the first loop of the constructor accepts: every entry
  names the axis \<open>X\<close> or \<open>Y\<close> of a point of the model.
\<close>

definition dofs_ok :: "TSymbolicAssembledModel \<Rightarrow> bool" where
  "dofs_ok armi \<longleftrightarrow>
     list_all (\<lambda>d. point_dof d \<noteq> PointDOF_Z \<and> point_index d < length (m_points (model armi)))
       (DOFs armi)"

text \<open>The symbolic assembly of the pendulum, and the same with a DOF on the axis \<open>Z\<close>.\<close>

definition pendulum_armi :: TSymbolicAssembledModel where
  "pendulum_armi =
     \<lparr> model = pendulum_assembled,
       DOFs = [\<lparr>point_index = 1, point_dof = PointDOF_X\<rparr>,
               \<lparr>point_index = 1, point_dof = PointDOF_Y\<rparr>],
       rDOFs = [] \<rparr>"

definition pendulum_armi_Z :: TSymbolicAssembledModel where
  "pendulum_armi_Z =
     \<lparr> model = pendulum_assembled,
       DOFs = [\<lparr>point_index = 1, point_dof = PointDOF_Z\<rparr>],
       rDOFs = [] \<rparr>"

text \<open>
  The same two points with one free axis each: \<open>x\<close> of point 0 and \<open>y\<close> of point 1 are
  DOFs, \<open>y\<close> of point 0 and \<open>x\<close> of point 1 are fixed.
\<close>

definition slider_armi :: TSymbolicAssembledModel where
  "slider_armi =
     \<lparr> model = pendulum_assembled,
       DOFs = [\<lparr>point_index = 0, point_dof = PointDOF_X\<rparr>,
               \<lparr>point_index = 1, point_dof = PointDOF_Y\<rparr>],
       rDOFs = [] \<rparr>"

definition slider_arm :: CAssembledRigidModel where
  "slider_arm =
     \<lparr> m_parent = pendulum_assembled, m_gravity = DEFAULT_GRAVITY,
       m_q = [0, 0], m_dotq = [0, 0], m_ddotq = [0, 0], m_Q = [0, 0],
       m_DOFs = [\<lparr>point_index = 0, point_dof = PointDOF_X\<rparr>,
                 \<lparr>point_index = 1, point_dof = PointDOF_Y\<rparr>],
       m_rDOFs = [],
       m_points2DOFs = [\<lparr>dof_x = Some 0, dof_y = None\<rparr>, \<lparr>dof_x = None, dof_y = Some 1\<rparr>],
       m_constraints = [ConstraintConstantDistance 0 1 1],
       relCoordinate2Index = [], m_Phi = [] \<rparr>"

section \<open>Values read in a well-formed model, and the formulas of the specification\<close>

text \<open>What the two accessors return when every index is in range.\<close>

definition point_coords :: "CAssembledRigidModel \<Rightarrow> nat \<Rightarrow> TPoint2D" where
  "point_coords a p =
     TPoint2D
       (case dof_x (m_points2DOFs a ! p) of
          Some i \<Rightarrow> m_q a ! i
        | None \<Rightarrow> px (coords (m_points (m_parent a) ! p)))
       (case dof_y (m_points2DOFs a ! p) of
          Some i \<Rightarrow> m_q a ! i
        | None \<Rightarrow> py (coords (m_points (m_parent a) ! p)))"

definition point_velocity :: "CAssembledRigidModel \<Rightarrow> nat \<Rightarrow> TPoint2D" where
  "point_velocity a p =
     TPoint2D
       (case dof_x (m_points2DOFs a ! p) of Some i \<Rightarrow> m_dotq a ! i | None \<Rightarrow> 0)
       (case dof_y (m_points2DOFs a ! p) of Some i \<Rightarrow> m_dotq a ! i | None \<Rightarrow> 0)"

text \<open>
  A body with two reference points that are points of the model: what
  \<open>body.points[0]\<close> and \<open>body.points[1]\<close> need in order to be defined.
\<close>

definition body_ok :: "CAssembledRigidModel \<Rightarrow> nat \<Rightarrow> bool" where
  "body_ok a body_index \<longleftrightarrow>
     body_index < length (m_bodies (m_parent a)) \<and>
     2 \<le> length (points (m_bodies (m_parent a) ! body_index)) \<and>
     points (m_bodies (m_parent a) ! body_index) ! 0 < length (m_points (m_parent a)) \<and>
     points (m_bodies (m_parent a) ! body_index) ! 1 < length (m_points (m_parent a))"

text \<open>
  The reverse table has an entry for the point, and the columns of that entry are
  positions of a vector of length \<open>n\<close>: what the DOF-indexed reads of the point need in
  order to stay inside a state vector of that length.
\<close>

definition dofs_below :: "CAssembledRigidModel \<Rightarrow> nat \<Rightarrow> nat \<Rightarrow> bool" where
  "dofs_below a n p \<longleftrightarrow>
     p < length (m_points2DOFs a) \<and>
     dof_below n (dof_x (m_points2DOFs a ! p)) \<and>
     dof_below n (dof_y (m_points2DOFs a ! p))"

definition rot90 :: "TPoint2D \<Rightarrow> TPoint2D" where
  "rot90 a = TPoint2D (- py a) (px a)"

definition dot :: "TPoint2D \<Rightarrow> TPoint2D \<Rightarrow> real" where
  "dot a b = px a * px b + py a * py b"

text \<open>
  The rate of the specification, in its words: \<open>w = ((p1vel - p0vel) \<cdot> v_perp) / |p1 - p0|\<close>
  with \<open>v_perp\<close> the rotation by +90 degrees of the unit vector from \<open>p0\<close> to \<open>p1\<close>. Where the
  two points coincide the quotient is not a number.
\<close>

definition gyro_rate :: "TPoint2D \<Rightarrow> TPoint2D \<Rightarrow> TPoint2D \<Rightarrow> TPoint2D \<Rightarrow> real fp" where
  "gyro_rate p0 p1 p0vel p1vel =
     (let d = norm_pt (pt_sub p1 p0) in
      if d = 0 then NonFinite
      else Finite (dot (pt_sub p1vel p0vel) (rot90 (pt_scale (pt_sub p1 p0) (1 / d))) / d))"

text \<open>The row left by one guarded assignment \<^verbatim>\<open>Hv(0, i) = v\<close>.\<close>

definition set_column :: "nat option \<Rightarrow> real \<Rightarrow> real list \<Rightarrow> real list" where
  "set_column dof v Hv = (case dof of Some i \<Rightarrow> Hv[i := v] | None \<Rightarrow> Hv)"

text \<open>
  The rows that the blocks \<^verbatim>\<open>if (H1)\<close> and \<^verbatim>\<open>if (H2)\<close> leave when every column is inside
  the row: the four guarded assignments, in the order of the source, on a zero row.
\<close>

definition H1_row ::
  "nat \<Rightarrow> Point2ToDOF \<Rightarrow> Point2ToDOF \<Rightarrow> real \<Rightarrow> TPoint2D \<Rightarrow> TPoint2D \<Rightarrow> TPoint2D \<Rightarrow> TPoint2D
   \<Rightarrow> real list" where
  "H1_row n d0 d1 len_inv pt0 pt1 pt0vel pt1vel =
     set_column (dof_y d1)
       (len_inv * len_inv * (px pt0vel - px pt1vel) +
        2 * len_inv * len_inv * len_inv * len_inv *
          (py pt0 - py pt1) *
          (- (py pt0 - py pt1) * (px pt0vel - px pt1vel) +
           (px pt0 - px pt1) * (py pt0vel - py pt1vel)))
    (set_column (dof_x d1)
       (- len_inv * len_inv * (py pt0vel - py pt1vel) +
        2 * len_inv * len_inv * len_inv * len_inv *
          (px pt0 - px pt1) *
          ((px pt0 - px pt1) * (py pt0vel - py pt1vel) -
           (py pt0 - py pt1) * (px pt0vel - px pt1vel)))
    (set_column (dof_y d0)
       (- len_inv * len_inv * (px pt0vel - px pt1vel) +
        2 * len_inv * len_inv * len_inv * len_inv *
          (py pt0 - py pt1) *
          ((py pt0 - py pt1) * (px pt0vel - px pt1vel) -
           (px pt0 - px pt1) * (py pt0vel - py pt1vel)))
    (set_column (dof_x d0)
       (len_inv * len_inv * (py pt0vel - py pt1vel) -
        2 * len_inv * len_inv * len_inv * len_inv *
          (px pt0 - px pt1) *
          ((px pt0 - px pt1) * (py pt0vel - py pt1vel) -
           (py pt0 - py pt1) * (px pt0vel - px pt1vel)))
    (replicate n 0))))"

definition H2_row ::
  "nat \<Rightarrow> Point2ToDOF \<Rightarrow> Point2ToDOF \<Rightarrow> real \<Rightarrow> TPoint2D \<Rightarrow> TPoint2D \<Rightarrow> real list" where
  "H2_row n d0 d1 len_inv pt0 pt1 =
     set_column (dof_y d1) (len_inv * len_inv * (px pt1 - px pt0))
    (set_column (dof_x d1) (len_inv * len_inv * (py pt0 - py pt1))
    (set_column (dof_y d0) (len_inv * len_inv * (px pt0 - px pt1))
    (set_column (dof_x d0) (len_inv * len_inv * (py pt1 - py pt0))
    (replicate n 0))))"

text \<open>
  The point on a body in the words of the specification: \<open>p0 + x \<cdot> u + y \<cdot> v\<close> with
  \<open>u = (p1 - p0) / |p1 - p0|\<close> and \<open>v\<close> its rotation by +90 degrees.
\<close>

definition body_point_spec :: "TPoint2D \<Rightarrow> TPoint2D \<Rightarrow> TPoint2D \<Rightarrow> TPoint2D" where
  "body_point_spec p0 p1 relative_pt =
     (let u = pt_scale (pt_sub p1 p0) (1 / norm_pt (pt_sub p1 p0));
          v = rot90 u
      in TPoint2D (px p0 + px relative_pt * px u + py relative_pt * px v)
                  (py p0 + px relative_pt * py u + py relative_pt * py v))"

text \<open>The same with the stored length \<open>L\<close> of the body in place of the distance.\<close>

definition body_point_stored :: "TPoint2D \<Rightarrow> TPoint2D \<Rightarrow> real \<Rightarrow> TPoint2D \<Rightarrow> TPoint2D" where
  "body_point_stored p0 p1 L relative_pt =
     (let u = pt_scale (pt_sub p1 p0) (1 / L);
          v = rot90 u
      in TPoint2D (px p0 + px relative_pt * px u + py relative_pt * px v)
                  (py p0 + px relative_pt * py u + py relative_pt * py v))"

text \<open>The pendulum with a rod of stored length \<open>0\<close>.\<close>

definition pendulum_arm_L0 :: CAssembledRigidModel where
  "pendulum_arm_L0 =
     pendulum_arm\<lparr>m_parent :=
       pendulum_assembled\<lparr>m_bodies := map (\<lambda>b. b\<lparr>body_length := 0\<rparr>) (m_bodies pendulum_assembled)\<rparr>\<rparr>"

text \<open>
  The potential energy in the words of the specification: the sum over the bodies of
  \<open>- (mass \<cdot> (gravity \<cdot> cog))\<close>, the centre of gravity being what
  \<open>getPointOnBodyCurrentCoords\<close> reconstructs for the body. A sum with a term that is not
  finite is not finite.
\<close>

definition body_cog :: "bool \<Rightarrow> CAssembledRigidModel \<Rightarrow> nat \<Rightarrow> TPoint2D fp" where
  "body_cog debug a i =
     (case getPointOnBodyCurrentCoords debug a i (cog (m_bodies (m_parent a) ! i)) of
        Inr c \<Rightarrow> c
      | Inl e \<Rightarrow> NonFinite)"

fun sum_fp :: "real fp list \<Rightarrow> real fp" where
  "sum_fp [] = Finite 0"
| "sum_fp (t # ts) = fp_add t (sum_fp ts)"

definition potential_spec :: "bool \<Rightarrow> CAssembledRigidModel \<Rightarrow> real fp" where
  "potential_spec debug a =
     sum_fp (map (\<lambda>i. fp_map (\<lambda>c. - (mass (m_bodies (m_parent a) ! i)
                                       * (fst (m_gravity a) * px c + fst (snd (m_gravity a)) * py c)))
                           (body_cog debug a i))
                 [0 ..< length (m_bodies (m_parent a))])"

text \<open>
  The closure constraints of one body: the pairs of local point numbers by the number of
  points of the body, and for each pair one constant-distance constraint between the two
  points of the model.
\<close>

definition closure_pairs :: "nat \<Rightarrow> (nat \<times> nat) list" where
  "closure_pairs n =
     (if n = 2 then [(0, 1)]
      else if n = 3 then [(0, 1), (0, 2), (1, 2)]
      else (0, 1) # concat (map (\<lambda>j. [(0, j), (1, j)]) [2 ..< n]))"

definition initial_distance :: "Point2 list \<Rightarrow> nat \<Rightarrow> nat \<Rightarrow> real" where
  "initial_distance pts p p' = norm_pt (pt_sub (coords (pts ! p)) (coords (pts ! p')))"

text \<open>
  In the words of claim C9, every constraint has the initial distance of its two points
  for length.
\<close>

definition closure_constraints_claimed :: "Point2 list \<Rightarrow> CBody \<Rightarrow> CConstraint list" where
  "closure_constraints_claimed pts b =
     map (\<lambda>(i, j). ConstraintConstantDistance (points b ! i) (points b ! j)
                     (initial_distance pts (points b ! i) (points b ! j)))
         (closure_pairs (length (points b)))"

text \<open>
  The same with the length that claim C9 as amended gives: the stored length of the body
  for a body of two points, the initial distance of the two points otherwise.
\<close>

definition closure_constraints :: "Point2 list \<Rightarrow> CBody \<Rightarrow> CConstraint list" where
  "closure_constraints pts b =
     map (\<lambda>(i, j). ConstraintConstantDistance (points b ! i) (points b ! j)
                     (if length (points b) = 2 then body_length b
                      else initial_distance pts (points b ! i) (points b ! j)))
         (closure_pairs (length (points b)))"

text \<open>
  The pendulum with a rod of stored length 5 between its two points, which are at
  distance 1.
\<close>

definition long_rod_pendulum :: ModelDefinition where
  "long_rod_pendulum =
     pendulum\<lparr>m_bodies := [\<lparr>points = [0, 1], body_length = 5, mass = 2, cog = TPoint2D (1/2) 0,
                              getM00 = Matrix2d (2/3) 0 0 (2/3),
                              getM01 = Matrix2d (1/3) 0 0 (1/3),
                              getM11 = Matrix2d (2/3) 0 0 (2/3)\<rparr>]\<rparr>"

text \<open>A square plate on four points, and a body with a single point.\<close>

definition plate :: ModelDefinition where
  "plate =
     \<lparr> m_points = [\<lparr>coords = TPoint2D 0 0, fixed = True\<rparr>,
                   \<lparr>coords = TPoint2D 1 0, fixed = False\<rparr>,
                   \<lparr>coords = TPoint2D 1 1, fixed = False\<rparr>,
                   \<lparr>coords = TPoint2D 0 1, fixed = False\<rparr>],
       m_bodies = [\<lparr>points = [0, 1, 2, 3], body_length = 1, mass = 1, cog = TPoint2D (1/2) (1/2),
                    getM00 = Matrix2d 1 0 0 1, getM01 = Matrix2d 0 0 0 0,
                    getM11 = Matrix2d 1 0 0 1\<rparr>],
       getConstraints = [],
       already_added_fixed_len_constraints = False \<rparr>"

definition one_point_body :: ModelDefinition where
  "one_point_body =
     plate\<lparr>m_bodies := [\<lparr>points = [1], body_length = 1, mass = 1, cog = TPoint2D 0 0,
                          getM00 = Matrix2d 1 0 0 1, getM01 = Matrix2d 0 0 0 0,
                          getM11 = Matrix2d 1 0 0 1\<rparr>]\<rparr>"




section \<open>The Jacobians of the factors\<close>




text \<open>A constant-distance constraint between two points of the model.\<close>

fun distance_constraint :: "CAssembledRigidModel \<Rightarrow> CConstraint \<Rightarrow> bool" where
  "distance_constraint a (ConstraintConstantDistance i0 i1 L) \<longleftrightarrow>
     i0 < length (m_points (m_parent a)) \<and> i1 < length (m_points (m_parent a))"
| "distance_constraint a c \<longleftrightarrow> False"

text \<open>The row that four guarded assignments leave when every column is inside the row.\<close>

definition row4 ::
  "nat \<Rightarrow> Point2ToDOF \<Rightarrow> Point2ToDOF \<Rightarrow> real \<Rightarrow> real \<Rightarrow> real \<Rightarrow> real \<Rightarrow> real list" where
  "row4 n d0 d1 vx0 vy0 vx1 vy1 =
     set_column (dof_y d1) vy1
    (set_column (dof_x d1) vx1
    (set_column (dof_y d0) vy0
    (set_column (dof_x d0) vx0 (replicate n 0))))"

text \<open>
  The residual of a constant-distance constraint and its product with the velocities as
  functions of the coordinates and velocities of the two points.
\<close>

definition distance_of_coordinates :: "real \<Rightarrow> real \<Rightarrow> real \<Rightarrow> real \<Rightarrow> real \<Rightarrow> real" where
  "distance_of_coordinates L x0 y0 x1 y1 =
     (x1 - x0) * (x1 - x0) + (y1 - y0) * (y1 - y0) - L * L"

definition velocity_of_coordinates ::
  "real \<Rightarrow> real \<Rightarrow> real \<Rightarrow> real \<Rightarrow> real \<Rightarrow> real \<Rightarrow> real \<Rightarrow> real \<Rightarrow> real" where
  "velocity_of_coordinates x0 y0 x1 y1 vx0 vy0 vx1 vy1 =
     2 * (x1 - x0) * (vx1 - vx0) + 2 * (y1 - y0) * (vy1 - vy0)"



section \<open>Basic facts\<close>

subsection \<open>The accessors in a well-formed model\<close>

lemma bind_result_Inr_iff: "bind_result m f = Inr v \<longleftrightarrow> (\<exists>u. m = Inr u \<and> f u = Inr v)"
  by (cases m) auto

lemma wf_arm_dofs:
  assumes "wf_arm a" "p < length (m_points (m_parent a))"
  shows "dof_x (m_points2DOFs a ! p) = Some i \<Longrightarrow> i < length (m_q a)"
    and "dof_y (m_points2DOFs a ! p) = Some i \<Longrightarrow> i < length (m_q a)"
  using assms by (auto simp: wf_arm_def list_all_length dof_below_def split: option.splits)

lemma getPointCurrentCoords_wf:
  assumes "wf_arm a" "p < length (m_points (m_parent a))"
  shows "getPointCurrentCoords a p = Inr (TPoint2D
     (case dof_x (m_points2DOFs a ! p) of Some i \<Rightarrow> m_q a ! i | None \<Rightarrow> px (coords (m_points (m_parent a) ! p)))
     (case dof_y (m_points2DOFs a ! p) of Some i \<Rightarrow> m_q a ! i | None \<Rightarrow> py (coords (m_points (m_parent a) ! p))))"
  using assms wf_arm_dofs[OF assms]
  by (auto simp: getPointCurrentCoords_def getPointInfo_def vec_get_def wf_arm_def split: option.splits)

lemma getPointCurrentVelocity_wf:
  assumes "wf_arm a" "p < length (m_points (m_parent a))"
  shows "getPointCurrentVelocity a p = Inr (TPoint2D
     (case dof_x (m_points2DOFs a ! p) of Some i \<Rightarrow> m_dotq a ! i | None \<Rightarrow> 0)
     (case dof_y (m_points2DOFs a ! p) of Some i \<Rightarrow> m_dotq a ! i | None \<Rightarrow> 0))"
  using assms wf_arm_dofs[OF assms]
  by (auto simp: getPointCurrentVelocity_def vec_get_def wf_arm_def split: option.splits)

lemma pendulum_assembly:
  "assembleRigidMBS_model pendulum None = (pendulum_assembled, Inr pendulum_arm)"
  by (simp add: assembleRigidMBS_model_def assembleRigidMBS_def pendulum_def pendulum_assembled_def
      pendulum_arm_def add_body_constraints_def CAssembledRigidModel_ctor_def getPointInfo_def
      vec_get_def vec_at_def Let_def)

lemma wf_pendulum_arm: "wf_arm pendulum_arm"
  by (simp add: wf_arm_def pendulum_arm_def pendulum_assembled_def pendulum_def dof_below_def
      columns_of_def)

lemma wf_arm_set_q:
  "wf_arm a \<Longrightarrow> length v = length (m_q a) \<Longrightarrow> wf_arm (a\<lparr>m_q := v\<rparr>)"
  by (simp add: wf_arm_def)

lemma wf_arm_set_dotq:
  "wf_arm a \<Longrightarrow> length v = length (m_q a) \<Longrightarrow> wf_arm (a\<lparr>m_dotq := v\<rparr>)"
  by (simp add: wf_arm_def)

lemma pendulum_arm_simps:
  "m_q pendulum_arm = [1, 0]" "m_dotq pendulum_arm = [0, 0]"
  "m_points2DOFs pendulum_arm = [\<lparr>dof_x = None, dof_y = None\<rparr>, \<lparr>dof_x = Some 0, dof_y = Some 1\<rparr>]"
  "m_points (m_parent pendulum_arm) = [\<lparr>coords = TPoint2D 0 0, fixed = True\<rparr>,
                   \<lparr>coords = TPoint2D 1 0, fixed = False\<rparr>]"
  by (simp_all add: pendulum_arm_def pendulum_assembled_def pendulum_def)

lemma getPointCurrentCoords_cong:
  "m_parent a = m_parent b \<Longrightarrow> m_points2DOFs a = m_points2DOFs b \<Longrightarrow> m_q a = m_q b
   \<Longrightarrow> getPointCurrentCoords a p = getPointCurrentCoords b p"
  by (simp add: getPointCurrentCoords_def cong: option.case_cong)

lemma getPointCurrentVelocity_cong:
  "m_points2DOFs a = m_points2DOFs b \<Longrightarrow> m_dotq a = m_dotq b
   \<Longrightarrow> getPointCurrentVelocity a p = getPointCurrentVelocity b p"
  by (simp add: getPointCurrentVelocity_def cong: option.case_cong)

lemma fst_evaluateError:
  "length dq_k = length q_k \<Longrightarrow> 1 \<le> length q_k \<Longrightarrow>
   fst (evaluateError f m_arm q_k dq_k wantH1 wantH2) = m_arm\<lparr>m_q := q_k, m_dotq := dq_k\<rparr>"
  by (auto simp: evaluateError_def Let_def)


subsection \<open>One call of the gyroscope factor\<close>

lemma getPointCurrentCoords_point_coords:
  "wf_arm a \<Longrightarrow> p < length (m_points (m_parent a)) \<Longrightarrow>
   getPointCurrentCoords a p = Inr (point_coords a p)"
  by (simp add: getPointCurrentCoords_wf point_coords_def)

lemma getPointCurrentVelocity_point_velocity:
  "wf_arm a \<Longrightarrow> p < length (m_points (m_parent a)) \<Longrightarrow>
   getPointCurrentVelocity a p = Inr (point_velocity a p)"
  by (simp add: getPointCurrentVelocity_wf point_velocity_def)

lemma fill_column_Inr:
  "dof_below (length Hv) dof \<Longrightarrow> fill_column dof v Hv = Inr (set_column dof v Hv)"
  by (auto simp: fill_column_def set_column_def row_set_def dof_below_def split: option.splits)

lemma length_set_column [simp]: "length (set_column dof v Hv) = length Hv"
  by (simp add: set_column_def split: option.splits)

lemma fill_H1_Inr:
  assumes "dof_below n (dof_x d0)" "dof_below n (dof_y d0)"
          "dof_below n (dof_x d1)" "dof_below n (dof_y d1)"
  shows "fill_H1 n d0 d1 len_inv pt0 pt1 pt0vel pt1vel =
           Inr (H1_row n d0 d1 len_inv pt0 pt1 pt0vel pt1vel)"
  using assms unfolding fill_H1_def H1_row_def by (simp add: fill_column_Inr)

lemma fill_H2_Inr:
  assumes "dof_below n (dof_x d0)" "dof_below n (dof_y d0)"
          "dof_below n (dof_x d1)" "dof_below n (dof_y d1)"
  shows "fill_H2 n d0 d1 len_inv pt0 pt1 = Inr (H2_row n d0 d1 len_inv pt0 pt1)"
  using assms unfolding fill_H2_def H2_row_def by (simp add: fill_column_Inr)

lemma wf_arm_dof_below:
  assumes "wf_arm a" "p < length (m_points (m_parent a))"
  shows "dof_below (length (m_q a)) (dof_x (m_points2DOFs a ! p))"
        "dof_below (length (m_q a)) (dof_y (m_points2DOFs a ! p))"
  using assms by (auto simp: wf_arm_def list_all_length)

lemma wf_arm_set_state:
  "wf_arm a \<Longrightarrow> length q = length (m_q a) \<Longrightarrow> length dq = length q \<Longrightarrow>
   wf_arm (a\<lparr>m_q := q, m_dotq := dq\<rparr>)"
  by (simp add: wf_arm_def)


lemma snd_evaluateError_wf:
  assumes wf: "wf_arm m_arm" and lq: "length q_k = length (m_q m_arm)"
      and ld: "length dq_k = length q_k" and pos: "1 \<le> length q_k"
      and b: "body_ok m_arm (m_body_idx f)"
  defines "arm \<equiv> m_arm\<lparr>m_q := q_k, m_dotq := dq_k\<rparr>"
  defines "i0 \<equiv> points (m_bodies (m_parent m_arm) ! m_body_idx f) ! 0"
      and "i1 \<equiv> points (m_bodies (m_parent m_arm) ! m_body_idx f) ! 1"
  defines "len \<equiv> norm_pt (pt_sub (point_coords arm i1) (point_coords arm i0))"
  shows "snd (evaluateError f m_arm q_k dq_k wantH1 wantH2) =
     Inr (if len = 0 then NonFinite
          else Finite
            \<lparr>err = [(px (pt_sub (point_velocity arm i1) (point_velocity arm i0))
                        * (- py (pt_scale (pt_sub (point_coords arm i1) (point_coords arm i0)) (1 / len)))
                     + py (pt_sub (point_velocity arm i1) (point_velocity arm i0))
                        * px (pt_scale (pt_sub (point_coords arm i1) (point_coords arm i0)) (1 / len)))
                    * (1 / len) - m_reading f],
              H1 = (if wantH1
                    then Some (H1_row (length q_k) (m_points2DOFs m_arm ! i0) (m_points2DOFs m_arm ! i1)
                                 (1 / len) (point_coords arm i0) (point_coords arm i1)
                                 (point_velocity arm i0) (point_velocity arm i1))
                    else None),
              H2 = (if wantH2
                    then Some (H2_row (length q_k) (m_points2DOFs m_arm ! i0) (m_points2DOFs m_arm ! i1)
                                 (1 / len) (point_coords arm i0) (point_coords arm i1))
                    else None)\<rparr>)"
proof -
  have wf': "wf_arm arm" unfolding arm_def by (rule wf_arm_set_state[OF wf lq ld])
  have par: "m_parent arm = m_parent m_arm" "m_points2DOFs arm = m_points2DOFs m_arm"
            "m_q arm = q_k"
    by (simp_all add: arm_def)
  have i0: "i0 < length (m_points (m_parent arm))" and i1: "i1 < length (m_points (m_parent arm))"
    using b by (simp_all add: body_ok_def i0_def i1_def par)
  have bi: "m_body_idx f < length (m_bodies (m_parent m_arm))"
    and p0: "vec_get (points (m_bodies (m_parent m_arm) ! m_body_idx f)) 0 = Inr i0"
    and p1: "vec_get (points (m_bodies (m_parent m_arm) ! m_body_idx f)) (Suc 0) = Inr i1"
    using b by (auto simp: body_ok_def vec_get_def i0_def i1_def)
  have t0: "vec_get (m_points2DOFs m_arm) i0 = Inr (m_points2DOFs m_arm ! i0)"
   and t1: "vec_get (m_points2DOFs m_arm) i1 = Inr (m_points2DOFs m_arm ! i1)"
    using wf i0 i1 by (simp_all add: vec_get_def wf_arm_def par)
  note db = wf_arm_dof_below[OF wf' i0] wf_arm_dof_below[OF wf' i1]
  have h1: "fill_H1 (length q_k) (m_points2DOFs m_arm ! i0) (m_points2DOFs m_arm ! i1) li a b' c d
            = Inr (H1_row (length q_k) (m_points2DOFs m_arm ! i0) (m_points2DOFs m_arm ! i1) li a b' c d)"
    for li a b' c d
    using db by (intro fill_H1_Inr) (simp_all add: par)
  have h2: "fill_H2 (length q_k) (m_points2DOFs m_arm ! i0) (m_points2DOFs m_arm ! i1) li a b'
            = Inr (H2_row (length q_k) (m_points2DOFs m_arm ! i0) (m_points2DOFs m_arm ! i1) li a b')"
    for li a b'
    using db by (intro fill_H2_Inr) (simp_all add: par)
  have c0: "getPointCurrentCoords arm i0 = Inr (point_coords arm i0)"
   and c1: "getPointCurrentCoords arm i1 = Inr (point_coords arm i1)"
   and v0: "getPointCurrentVelocity arm i0 = Inr (point_velocity arm i0)"
   and v1: "getPointCurrentVelocity arm i1 = Inr (point_velocity arm i1)"
    using wf' i0 i1
    by (simp_all add: getPointCurrentCoords_point_coords getPointCurrentVelocity_point_velocity)
  have ne: "q_k \<noteq> []" using pos by auto
  show ?thesis
    using ld ne bi
    by (simp add: evaluateError_def Let_def arm_def[symmetric] par p0 p1 c0 c1 v0 v1 t0 t1 h1 h2
                  fp_inv_def len_def[symmetric])
qed


lemma gyro_rate_code:
  "gyro_rate p0 p1 v0 v1 =
     (if norm_pt (pt_sub p1 p0) = 0 then NonFinite
      else Finite ((px (pt_sub v1 v0) * (- py (pt_scale (pt_sub p1 p0) (1 / norm_pt (pt_sub p1 p0))))
                    + py (pt_sub v1 v0) * px (pt_scale (pt_sub p1 p0) (1 / norm_pt (pt_sub p1 p0))))
                   * (1 / norm_pt (pt_sub p1 p0))))"
  by (simp add: gyro_rate_def Let_def dot_def rot90_def)

lemma fp_map_eq_Finite: "fp_map g r = Finite v \<longleftrightarrow> (\<exists>u. r = Finite u \<and> g u = v)"
  by (cases r) auto

lemma body_ok_pendulum_arm: "body_ok pendulum_arm 0"
  by (simp add: body_ok_def pendulum_arm_def pendulum_assembled_def pendulum_def)


subsection \<open>State vectors that cover the columns of the two points, and shorter ones\<close>

lemma getPointCurrentCoords_covered:
  assumes "p < length (m_points (m_parent a))" "dofs_below a (length (m_q a)) p"
  shows "getPointCurrentCoords a p = Inr (point_coords a p)"
  using assms
  by (auto simp: getPointCurrentCoords_def getPointInfo_def vec_get_def dofs_below_def
        dof_below_def point_coords_def split: option.splits)

lemma getPointCurrentVelocity_covered:
  assumes "dofs_below a (length (m_dotq a)) p"
  shows "getPointCurrentVelocity a p = Inr (point_velocity a p)"
  using assms
  by (auto simp: getPointCurrentVelocity_def vec_get_def dofs_below_def
        dof_below_def point_velocity_def split: option.splits)

lemma getPointCurrentCoords_not_covered:
  assumes "p < length (m_points (m_parent a))" "\<not> dofs_below a (length (m_q a)) p"
  shows "getPointCurrentCoords a p = Inl OutOfBounds"
  using assms
  by (auto simp: getPointCurrentCoords_def getPointInfo_def vec_get_def dofs_below_def
        dof_below_def split: option.splits)

lemma snd_evaluateError_covered:
  assumes b: "body_ok m_arm (m_body_idx f)"
      and ld: "length dq_k = length q_k" and pos: "1 \<le> length q_k"
      and k0: "dofs_below m_arm (length q_k) (points (m_bodies (m_parent m_arm) ! m_body_idx f) ! 0)"
      and k1: "dofs_below m_arm (length q_k) (points (m_bodies (m_parent m_arm) ! m_body_idx f) ! 1)"
  defines "arm \<equiv> m_arm\<lparr>m_q := q_k, m_dotq := dq_k\<rparr>"
  defines "i0 \<equiv> points (m_bodies (m_parent m_arm) ! m_body_idx f) ! 0"
      and "i1 \<equiv> points (m_bodies (m_parent m_arm) ! m_body_idx f) ! 1"
  defines "len \<equiv> norm_pt (pt_sub (point_coords arm i1) (point_coords arm i0))"
  shows "snd (evaluateError f m_arm q_k dq_k wantH1 wantH2) =
     Inr (if len = 0 then NonFinite
          else Finite
            \<lparr>err = [(px (pt_sub (point_velocity arm i1) (point_velocity arm i0))
                        * (- py (pt_scale (pt_sub (point_coords arm i1) (point_coords arm i0)) (1 / len)))
                     + py (pt_sub (point_velocity arm i1) (point_velocity arm i0))
                        * px (pt_scale (pt_sub (point_coords arm i1) (point_coords arm i0)) (1 / len)))
                    * (1 / len) - m_reading f],
              H1 = (if wantH1
                    then Some (H1_row (length q_k) (m_points2DOFs m_arm ! i0) (m_points2DOFs m_arm ! i1)
                                 (1 / len) (point_coords arm i0) (point_coords arm i1)
                                 (point_velocity arm i0) (point_velocity arm i1))
                    else None),
              H2 = (if wantH2
                    then Some (H2_row (length q_k) (m_points2DOFs m_arm ! i0) (m_points2DOFs m_arm ! i1)
                                 (1 / len) (point_coords arm i0) (point_coords arm i1))
                    else None)\<rparr>)"
proof -
  have par: "m_parent arm = m_parent m_arm" "m_points2DOFs arm = m_points2DOFs m_arm"
            "m_q arm = q_k" "m_dotq arm = dq_k"
    by (simp_all add: arm_def)
  have i0: "i0 < length (m_points (m_parent arm))" and i1: "i1 < length (m_points (m_parent arm))"
    using b by (simp_all add: body_ok_def i0_def i1_def par)
  have bi: "m_body_idx f < length (m_bodies (m_parent m_arm))"
    and p0: "vec_get (points (m_bodies (m_parent m_arm) ! m_body_idx f)) 0 = Inr i0"
    and p1: "vec_get (points (m_bodies (m_parent m_arm) ! m_body_idx f)) (Suc 0) = Inr i1"
    using b by (auto simp: body_ok_def vec_get_def i0_def i1_def)
  have k0': "dofs_below arm (length q_k) i0" and k1': "dofs_below arm (length q_k) i1"
    using k0 k1 by (simp_all add: dofs_below_def arm_def i0_def i1_def)
  have t0: "vec_get (m_points2DOFs m_arm) i0 = Inr (m_points2DOFs m_arm ! i0)"
   and t1: "vec_get (m_points2DOFs m_arm) i1 = Inr (m_points2DOFs m_arm ! i1)"
    using k0 k1 by (simp_all add: vec_get_def dofs_below_def i0_def i1_def)
  have db: "dof_below (length q_k) (dof_x (m_points2DOFs m_arm ! i0))"
           "dof_below (length q_k) (dof_y (m_points2DOFs m_arm ! i0))"
           "dof_below (length q_k) (dof_x (m_points2DOFs m_arm ! i1))"
           "dof_below (length q_k) (dof_y (m_points2DOFs m_arm ! i1))"
    using k0 k1 by (simp_all add: dofs_below_def i0_def i1_def)
  have h1: "fill_H1 (length q_k) (m_points2DOFs m_arm ! i0) (m_points2DOFs m_arm ! i1) li a b' c d
            = Inr (H1_row (length q_k) (m_points2DOFs m_arm ! i0) (m_points2DOFs m_arm ! i1) li a b' c d)"
    for li a b' c d
    using db by (intro fill_H1_Inr)
  have h2: "fill_H2 (length q_k) (m_points2DOFs m_arm ! i0) (m_points2DOFs m_arm ! i1) li a b'
            = Inr (H2_row (length q_k) (m_points2DOFs m_arm ! i0) (m_points2DOFs m_arm ! i1) li a b')"
    for li a b'
    using db by (intro fill_H2_Inr)
  have c0: "getPointCurrentCoords arm i0 = Inr (point_coords arm i0)"
   and c1: "getPointCurrentCoords arm i1 = Inr (point_coords arm i1)"
    using i0 i1 k0' k1' by (simp_all add: getPointCurrentCoords_covered par)
  have v0: "getPointCurrentVelocity arm i0 = Inr (point_velocity arm i0)"
   and v1: "getPointCurrentVelocity arm i1 = Inr (point_velocity arm i1)"
    using k0' k1' ld by (simp_all add: getPointCurrentVelocity_covered par)
  have ne: "q_k \<noteq> []" using pos by auto
  show ?thesis
    using ld ne bi
    by (simp add: evaluateError_def Let_def arm_def[symmetric] par p0 p1 c0 c1 v0 v1 t0 t1 h1 h2
                  fp_inv_def len_def[symmetric])
qed

lemma snd_evaluateError_not_covered:
  assumes b: "body_ok m_arm (m_body_idx f)"
      and ld: "length dq_k = length q_k" and pos: "1 \<le> length q_k"
      and k: "\<not> (dofs_below m_arm (length q_k) (points (m_bodies (m_parent m_arm) ! m_body_idx f) ! 0)
               \<and> dofs_below m_arm (length q_k) (points (m_bodies (m_parent m_arm) ! m_body_idx f) ! 1))"
  shows "snd (evaluateError f m_arm q_k dq_k wantH1 wantH2) = Inl OutOfBounds"
proof -
  define arm where "arm = m_arm\<lparr>m_q := q_k, m_dotq := dq_k\<rparr>"
  define i0 where "i0 = points (m_bodies (m_parent m_arm) ! m_body_idx f) ! 0"
  define i1 where "i1 = points (m_bodies (m_parent m_arm) ! m_body_idx f) ! 1"
  have par: "m_parent arm = m_parent m_arm" "m_points2DOFs arm = m_points2DOFs m_arm"
            "m_q arm = q_k" "m_dotq arm = dq_k"
    by (simp_all add: arm_def)
  have i0: "i0 < length (m_points (m_parent arm))" and i1: "i1 < length (m_points (m_parent arm))"
    using b by (simp_all add: body_ok_def i0_def i1_def par)
  have bi: "m_body_idx f < length (m_bodies (m_parent m_arm))"
    and p0: "vec_get (points (m_bodies (m_parent m_arm) ! m_body_idx f)) 0 = Inr i0"
    and p1: "vec_get (points (m_bodies (m_parent m_arm) ! m_body_idx f)) (Suc 0) = Inr i1"
    using b by (auto simp: body_ok_def vec_get_def i0_def i1_def)
  have eq: "dofs_below arm n p = dofs_below m_arm n p" for n p
    by (simp add: dofs_below_def arm_def)
  have ne: "q_k \<noteq> []" using pos by auto
  show ?thesis
  proof (cases "dofs_below m_arm (length q_k) i0")
    case False
    then have "getPointCurrentCoords arm i0 = Inl OutOfBounds"
      using i0 by (intro getPointCurrentCoords_not_covered) (simp_all add: par eq)
    then show ?thesis
      using ld ne bi by (simp add: evaluateError_def Let_def arm_def[symmetric] par p0 p1)
  next
    case True
    then have c0: "getPointCurrentCoords arm i0 = Inr (point_coords arm i0)"
      using i0 by (intro getPointCurrentCoords_covered) (simp_all add: par eq)
    from True k have "\<not> dofs_below m_arm (length q_k) i1" by (simp add: i0_def i1_def)
    then have "getPointCurrentCoords arm i1 = Inl OutOfBounds"
      using i1 by (intro getPointCurrentCoords_not_covered) (simp_all add: par eq)
    then show ?thesis
      using ld ne bi by (simp add: evaluateError_def Let_def arm_def[symmetric] par p0 p1 c0)
  qed
qed

lemma wf_arm_dofs_below_le:
  "wf_arm a \<Longrightarrow> p < length (m_points (m_parent a)) \<Longrightarrow> length (m_q a) \<le> n
   \<Longrightarrow> dofs_below a n p"
  by (auto simp: wf_arm_def dofs_below_def list_all_length dof_below_def split: option.splits)

subsection \<open>Points on a body\<close>

lemma getPointOnBodyCurrentCoords_wf:
  assumes wf: "wf_arm a" and b: "body_ok a body_index"
  shows "getPointOnBodyCurrentCoords debug a body_index relative_pt =
     (if debug \<and> \<not> 0 < body_length (m_bodies (m_parent a) ! body_index) then Inl AssertionFailed
      else Inr (if body_length (m_bodies (m_parent a) ! body_index) = 0 then NonFinite
                else Finite (body_point_stored
                       (point_coords a (points (m_bodies (m_parent a) ! body_index) ! 0))
                       (point_coords a (points (m_bodies (m_parent a) ! body_index) ! 1))
                       (body_length (m_bodies (m_parent a) ! body_index)) relative_pt)))"
proof -
  have bi: "body_index < length (m_bodies (m_parent a))"
    and p0: "vec_get (points (m_bodies (m_parent a) ! body_index)) 0
               = Inr (points (m_bodies (m_parent a) ! body_index) ! 0)"
    and p1: "vec_get (points (m_bodies (m_parent a) ! body_index)) (Suc 0)
               = Inr (points (m_bodies (m_parent a) ! body_index) ! Suc 0)"
    and i0: "points (m_bodies (m_parent a) ! body_index) ! 0 < length (m_points (m_parent a))"
    and i1: "points (m_bodies (m_parent a) ! body_index) ! Suc 0 < length (m_points (m_parent a))"
    using b by (auto simp: body_ok_def vec_get_def)
  show ?thesis
    using bi
    by (simp add: getPointOnBodyCurrentCoords_def vec_get_def[of "m_bodies (m_parent a)"] p0 p1
          getPointCurrentCoords_point_coords[OF wf i0] getPointCurrentCoords_point_coords[OF wf i1]
          Let_def fp_inv_def body_point_stored_def rot90_def mult.commute)
qed

lemma norm_pt_eq_0_iff: "norm_pt (pt_sub p1 p0) = 0 \<longleftrightarrow> p1 = p0"
proof -
  have "px p1 = px p0 \<and> py p1 = py p0 \<longleftrightarrow> p1 = p0"
    by (cases p1; cases p0) simp
  moreover have "norm_pt (pt_sub p1 p0) = 0 \<longleftrightarrow> px p1 = px p0 \<and> py p1 = py p0"
    by (simp add: norm_pt_def pt_sub_def add_nonneg_eq_0_iff)
  ultimately show ?thesis by simp
qed

lemma body_ok_set_q [simp]: "body_ok (a\<lparr>m_q := v\<rparr>) i = body_ok a i"
  by (simp add: body_ok_def)

lemma wf_pendulum_arm_L0: "wf_arm pendulum_arm_L0"
  by (simp add: wf_arm_def pendulum_arm_L0_def pendulum_arm_def pendulum_assembled_def pendulum_def
        dof_below_def columns_of_def)

lemma body_ok_pendulum_arm_L0: "body_ok pendulum_arm_L0 0"
  by (simp add: body_ok_def pendulum_arm_L0_def pendulum_arm_def pendulum_assembled_def pendulum_def)


subsection \<open>The loop of the energy evaluation\<close>

lemma fp_add_assoc: "fp_add (fp_add a b) c = fp_add a (fp_add b c)"
  by (cases a; cases b; cases c) simp_all

lemma fp_sub_as_add: "fp_sub p (fp_map w c) = fp_add p (fp_map (\<lambda>x. - w x) c)"
  by (cases p; cases c) simp_all

lemma fp_add_zero_right [simp]: "fp_add p (Finite 0) = p"
  by (cases p) simp_all

lemma fp_add_zero_left [simp]: "fp_add (Finite 0) p = p"
  by (cases p) simp_all

text \<open>The loop adds to the potential energy the terms of the bodies it visits.\<close>

lemma energy_loop_pot:
  "energy_loop debug a js (k, p) = Inr (k', p') \<Longrightarrow>
   p' = fp_add p (sum_fp (map (\<lambda>i. fp_map (\<lambda>c. - weight_term (m_gravity a) (m_bodies (m_parent a) ! i) c)
                                      (body_cog debug a i)) js))"
proof (induction js arbitrary: k p)
  case Nil
  then show ?case by simp
next
  case (Cons i js)
  from Cons.prems obtain i0 dq0 i1 dq1 gc where
    gc: "getPointOnBodyCurrentCoords debug a i (cog (m_bodies (m_parent a) ! i)) = Inr gc"
    and rest: "energy_loop debug a js
        (k + (0.5 * (bilinear (getM00 (m_bodies (m_parent a) ! i)) dq0 dq0
                      + bilinear (getM11 (m_bodies (m_parent a) ! i)) dq1 dq1)
              + bilinear (getM01 (m_bodies (m_parent a) ! i)) dq0 dq1),
         fp_sub p (fp_map (weight_term (m_gravity a) (m_bodies (m_parent a) ! i)) gc)) = Inr (k', p')"
    by (auto simp: bind_result_Inr_iff Let_def)
  have "body_cog debug a i = gc" by (simp add: body_cog_def gc)
  with Cons.IH[OF rest] show ?case
    by (simp add: fp_sub_as_add fp_add_assoc)
qed

lemma energy_loop_kin_zero:
  assumes "\<And>p v. getPointCurrentVelocity a p = Inr v \<Longrightarrow> v = TPoint2D 0 0"
  shows "energy_loop debug a js (k, p) = Inr (k', p') \<Longrightarrow> k' = k"
proof (induction js arbitrary: k p)
  case Nil
  then show ?case by simp
next
  case (Cons i js)
  from Cons.prems obtain i0 dq0 i1 dq1 gc where
    v0: "getPointCurrentVelocity a i0 = Inr dq0" and v1: "getPointCurrentVelocity a i1 = Inr dq1"
    and rest: "energy_loop debug a js
        (k + (0.5 * (bilinear (getM00 (m_bodies (m_parent a) ! i)) dq0 dq0
                      + bilinear (getM11 (m_bodies (m_parent a) ! i)) dq1 dq1)
              + bilinear (getM01 (m_bodies (m_parent a) ! i)) dq0 dq1),
         fp_sub p (fp_map (weight_term (m_gravity a) (m_bodies (m_parent a) ! i)) gc)) = Inr (k', p')"
    by (auto simp: bind_result_Inr_iff Let_def)
  have z: "dq0 = TPoint2D 0 0" "dq1 = TPoint2D 0 0" using assms v0 v1 by auto
  have b0: "bilinear M (TPoint2D 0 0) (TPoint2D 0 0) = 0" for M by (cases M) simp
  from Cons.IH[OF rest] show ?case by (simp add: z b0)
qed

lemma energy_loop_total:
  assumes wf: "wf_arm a"
      and ok: "\<And>i. i \<in> set js \<Longrightarrow> body_ok a i"
      and dbg: "\<And>i. debug \<Longrightarrow> i \<in> set js \<Longrightarrow> 0 < body_length (m_bodies (m_parent a) ! i)"
  shows "\<exists>r. energy_loop debug a js e = Inr r"
  using ok dbg
proof (induction js arbitrary: e)
  case Nil
  then show ?case by simp
next
  case (Cons i js)
  have b: "body_ok a i" using Cons.prems(1) by simp
  have p0: "vec_get (points (m_bodies (m_parent a) ! i)) 0
               = Inr (points (m_bodies (m_parent a) ! i) ! 0)"
    and p1: "vec_get (points (m_bodies (m_parent a) ! i)) (Suc 0)
               = Inr (points (m_bodies (m_parent a) ! i) ! Suc 0)"
    and i0: "points (m_bodies (m_parent a) ! i) ! 0 < length (m_points (m_parent a))"
    and i1: "points (m_bodies (m_parent a) ! i) ! Suc 0 < length (m_points (m_parent a))"
    using b by (auto simp: body_ok_def vec_get_def)
  have g: "\<exists>c. getPointOnBodyCurrentCoords debug a i rp = Inr c" for rp
    using Cons.prems(2)[of i] by (auto simp: getPointOnBodyCurrentCoords_wf[OF wf b])
  then obtain c where c: "getPointOnBodyCurrentCoords debug a i (cog (m_bodies (m_parent a) ! i)) = Inr c"
    by blast
  have "\<exists>r. energy_loop debug a js e' = Inr r" for e'
    using Cons.IH Cons.prems by simp
  then show ?case
    by (simp add: Let_def p0 p1 c getPointCurrentVelocity_point_velocity[OF wf i0]
          getPointCurrentVelocity_point_velocity[OF wf i1])
qed

lemma weight_term_gravity:
  "weight_term g b c = mass b * (fst g * px c + fst (snd g) * py c)"
  by (simp add: weight_term_def)

lemma pendulum_at_rest:
  "getPointCurrentVelocity (pendulum_arm\<lparr>m_q := [0, - 1]\<rparr>) p = Inr v \<Longrightarrow> v = TPoint2D 0 0"
  by (auto simp: getPointCurrentVelocity_def vec_get_def pendulum_arm_simps nth_Cons'
           bind_result_Inr_iff split: if_splits)


subsection \<open>The loops of the symbolic assembly\<close>

lemma emplace_pairs_eq:
  "emplace_pairs js pairs = pairs @ concat (map (\<lambda>j. [(0, j), (1, j)]) js)"
  by (induction js arbitrary: pairs) simp_all

lemma default_pairs_eq:
  "default_pairs n = (0, 1) # concat (map (\<lambda>j. [(0, j), (1, j)]) [2 ..< n])"
  by (simp add: default_pairs_def emplace_pairs_eq)

lemma closure_pairs_in_range:
  "2 \<le> n \<Longrightarrow> (i, j) \<in> set (closure_pairs n) \<Longrightarrow> i < n \<and> j < n"
  by (auto simp: closure_pairs_def split: if_splits)

lemma add_distance_constraints_ok:
  "(\<And>i j. (i, j) \<in> set ps \<Longrightarrow> points b ! i < length pts \<and> points b ! j < length pts) \<Longrightarrow>
   add_distance_constraints pts b ps cs =
     (cs @ map (\<lambda>(i, j). ConstraintConstantDistance (points b ! i) (points b ! j)
                            (initial_distance pts (points b ! i) (points b ! j))) ps, None)"
proof (induction ps arbitrary: cs)
  case Nil
  then show ?case by simp
next
  case (Cons p ps)
  obtain i j where p: "p = (i, j)" by (cases p)
  have "points b ! i < length pts" "points b ! j < length pts"
    using Cons.prems[of i j] by (simp_all add: p)
  moreover have "\<And>i j. (i, j) \<in> set ps \<Longrightarrow> points b ! i < length pts \<and> points b ! j < length pts"
    using Cons.prems by (meson list.set_intros(2))
  ultimately show ?case
    using Cons.IH by (simp add: p Let_def initial_distance_def)
qed

lemma add_body_constraints_ok:
  assumes n: "2 \<le> length (points b)" and v: "\<forall>p \<in> set (points b). p < length pts"
  shows "add_body_constraints pts b cs = (cs @ closure_constraints pts b, None)"
proof -
  have r: "points b ! i < length pts \<and> points b ! j < length pts"
    if "(i, j) \<in> set (closure_pairs (length (points b)))" for i j
    using closure_pairs_in_range[OF n that] v by simp
  have d: "add_distance_constraints pts b (closure_pairs (length (points b))) cs =
            (cs @ closure_constraints pts b, None)" if "length (points b) \<noteq> 2"
    using that r by (subst add_distance_constraints_ok) (auto simp: closure_constraints_def)
  consider "length (points b) = 2" | "length (points b) = 3" | "3 < length (points b)"
    using n by linarith
  then show ?thesis
  proof cases
    case 1
    then have "points b ! 0 < length pts" "points b ! 1 < length pts"
      using v by simp_all
    then show ?thesis
      using 1
      by (simp add: add_body_constraints_def closure_constraints_def closure_pairs_def Let_def)
  next
    case 2
    have "add_body_constraints pts b cs
            = add_distance_constraints pts b (closure_pairs (length (points b))) cs"
      unfolding add_body_constraints_def closure_pairs_def Let_def using 2 by simp
    then show ?thesis using d 2 by simp
  next
    case 3
    have "add_body_constraints pts b cs
            = add_distance_constraints pts b (closure_pairs (length (points b))) cs"
      unfolding add_body_constraints_def closure_pairs_def Let_def default_pairs_eq using 3 by auto
    then show ?thesis using d 3 by simp
  qed
qed

lemma add_body_constraints_few:
  assumes "length (points b) < 2"
  shows "add_body_constraints pts b cs = (cs, Some (InvalidNumberOfPoints (length (points b))))"
proof -
  have "length (points b) = 0 \<or> length (points b) = 1" using assms by linarith
  then show ?thesis unfolding add_body_constraints_def Let_def by auto
qed

lemma add_fixed_len_constraints_ok:
  "(\<And>b. b \<in> set bs \<Longrightarrow> 2 \<le> length (points b) \<and> (\<forall>p \<in> set (points b). p < length pts)) \<Longrightarrow>
   add_fixed_len_constraints pts bs cs = (cs @ concat (map (closure_constraints pts) bs), None)"
proof (induction bs arbitrary: cs)
  case Nil
  then show ?case by simp
next
  case (Cons b bs)
  have b: "2 \<le> length (points b)" "\<forall>p \<in> set (points b). p < length pts"
    using Cons.prems[of b] by simp_all
  have "add_fixed_len_constraints pts bs cs' = (cs' @ concat (map (closure_constraints pts) bs), None)"
    for cs'
    using Cons.prems by (intro Cons.IH) (meson list.set_intros(2))
  then show ?case
    by (simp add: add_body_constraints_ok[OF b])
qed

lemma add_fixed_len_constraints_few:
  "\<exists>b \<in> set bs. length (points b) < 2 \<Longrightarrow>
   \<exists>cs' e. add_fixed_len_constraints pts bs cs = (cs', Some e)"
proof (induction bs arbitrary: cs)
  case Nil
  then show ?case by simp
next
  case (Cons b bs)
  show ?case
  proof (cases "length (points b) < 2")
    case True
    then show ?thesis by (simp add: add_body_constraints_few)
  next
    case False
    with Cons.prems have "\<exists>b \<in> set bs. length (points b) < 2" by simp
    from Cons.IH[OF this] show ?thesis
      by (cases "add_body_constraints pts b cs") (auto split: option.splits)
  qed
qed

lemma closure_pairs_4: "closure_pairs 4 = [(0, 1), (0, 2), (1, 2), (0, 3), (1, 3)]"
proof -
  have "[2 ..< 4] = [2, 3 :: nat]" by (simp add: upt_rec)
  then show ?thesis by (simp add: closure_pairs_def)
qed


subsection \<open>The loops of the constructor\<close>

lemma columns_of_set_x:
  "columns_of (e\<lparr>dof_x := Some i\<rparr>) = i # (case dof_y e of Some j \<Rightarrow> [j] | None \<Rightarrow> [])"
  by (simp add: columns_of_def)

lemma columns_of_set_y:
  "columns_of (e\<lparr>dof_y := Some i\<rparr>) = (case dof_x e of Some j \<Rightarrow> [j] | None \<Rightarrow> []) @ [i]"
  by (simp add: columns_of_def)

lemma set_columns_of: "set (columns_of e) = set_option (dof_x e) \<union> set_option (dof_y e)"
  by (auto simp: columns_of_def split: option.splits)

lemma table_update_columns:
  assumes p: "p < length tbl"
      and d: "distinct (concat (map columns_of tbl))"
      and lt: "\<forall>c \<in> set (concat (map columns_of tbl)). c < i"
      and sub: "set (columns_of e') \<subseteq> insert i (set (columns_of (tbl ! p)))"
      and de: "distinct (columns_of e')"
  shows "distinct (concat (map columns_of (tbl[p := e'])))
       \<and> (\<forall>c \<in> set (concat (map columns_of (tbl[p := e']))). c < Suc i)"
proof -
  have t: "tbl = take p tbl @ tbl ! p # drop (Suc p) tbl"
    using p by (simp add: id_take_nth_drop)
  have u: "tbl[p := e'] = take p tbl @ e' # drop (Suc p) tbl"
    using p by (simp add: upd_conv_take_nth_drop)
  define A where "A = concat (map columns_of (take p tbl))"
  define B where "B = concat (map columns_of (drop (Suc p) tbl))"
  have old: "concat (map columns_of tbl) = A @ columns_of (tbl ! p) @ B"
    by (subst t) (simp add: A_def B_def)
  have new: "concat (map columns_of (tbl[p := e'])) = A @ columns_of e' @ B"
    by (simp add: u A_def B_def)
  have iA: "i \<notin> set A" and iB: "i \<notin> set B"
    using lt unfolding old by auto
  show ?thesis
    unfolding new using d lt sub de iA iB unfolding old
    by (auto simp: less_Suc_eq)
qed

lemma init_natural_dofs_ok:
  assumes "list_all (\<lambda>d. point_dof d \<noteq> PointDOF_Z \<and> point_index d < length (m_points md)) ds"
      and "length tbl = length (m_points md)"
      and "distinct (concat (map columns_of tbl))"
      and "\<forall>c \<in> set (concat (map columns_of tbl)). c < i"
  shows "\<exists>q' tbl'. init_natural_dofs md ds i (q, tbl) = Inr (q', tbl')
           \<and> length q' = length q \<and> length tbl' = length tbl
           \<and> distinct (concat (map columns_of tbl'))
           \<and> (\<forall>c \<in> set (concat (map columns_of tbl')). c < i + length ds)"
  using assms
proof (induction ds arbitrary: i q tbl)
  case Nil
  then show ?case by simp
next
  case (Cons d ds)
  have pi: "point_index d < length (m_points md)" and nz: "point_dof d \<noteq> PointDOF_Z"
    and rest: "list_all (\<lambda>d. point_dof d \<noteq> PointDOF_Z \<and> point_index d < length (m_points md)) ds"
    using Cons.prems(1) by simp_all
  have pt: "getPointInfo md (point_index d) = Inr (m_points md ! point_index d)"
    using pi by (simp add: getPointInfo_def vec_get_def)
  have at: "vec_at tbl (point_index d) = Inr (tbl ! point_index d)"
    using pi Cons.prems(2) by (simp add: vec_at_def)
  have pl: "point_index d < length tbl" using pi Cons.prems(2) by simp
  show ?case
  proof (cases "point_dof d")
    case PointDOF_X
    let ?tbl = "tbl[point_index d := (tbl ! point_index d)\<lparr>dof_x := Some i\<rparr>]"
    have inotin: "i \<notin> set (columns_of (tbl ! point_index d))"
      using Cons.prems(4) pl by (auto simp: nth_mem)
    have up: "distinct (concat (map columns_of ?tbl))
              \<and> (\<forall>c \<in> set (concat (map columns_of ?tbl)). c < Suc i)"
      using inotin
      by (intro table_update_columns[OF pl Cons.prems(3) Cons.prems(4)])
         (auto simp: columns_of_set_x set_columns_of split: option.splits)
    have "\<exists>q' tbl'. init_natural_dofs md ds (Suc i)
              (q[i := px (coords (m_points md ! point_index d))], ?tbl) = Inr (q', tbl')
           \<and> length q' = length (q[i := px (coords (m_points md ! point_index d))])
           \<and> length tbl' = length ?tbl
           \<and> distinct (concat (map columns_of tbl'))
           \<and> (\<forall>c \<in> set (concat (map columns_of tbl')). c < Suc i + length ds)"
      using up Cons.prems(2) by (intro Cons.IH[OF rest]) simp_all
    then show ?thesis
      by (simp add: Let_def pt at PointDOF_X)
  next
    case PointDOF_Y
    let ?tbl = "tbl[point_index d := (tbl ! point_index d)\<lparr>dof_y := Some i\<rparr>]"
    have inotin: "i \<notin> set (columns_of (tbl ! point_index d))"
      using Cons.prems(4) pl by (auto simp: nth_mem)
    have up: "distinct (concat (map columns_of ?tbl))
              \<and> (\<forall>c \<in> set (concat (map columns_of ?tbl)). c < Suc i)"
      using inotin
      by (intro table_update_columns[OF pl Cons.prems(3) Cons.prems(4)])
         (auto simp: columns_of_set_y set_columns_of split: option.splits)
    have "\<exists>q' tbl'. init_natural_dofs md ds (Suc i)
              (q[i := py (coords (m_points md ! point_index d))], ?tbl) = Inr (q', tbl')
           \<and> length q' = length (q[i := py (coords (m_points md ! point_index d))])
           \<and> length tbl' = length ?tbl
           \<and> distinct (concat (map columns_of tbl'))
           \<and> (\<forall>c \<in> set (concat (map columns_of tbl')). c < Suc i + length ds)"
      using up Cons.prems(2) by (intro Cons.IH[OF rest]) simp_all
    then show ?thesis
      by (simp add: Let_def pt at PointDOF_Y)
  next
    case PointDOF_Z
    then show ?thesis using nz by simp
  qed
qed

lemma init_natural_dofs_Z:
  "\<exists>d \<in> set ds. point_dof d = PointDOF_Z \<Longrightarrow> \<exists>e. init_natural_dofs md ds i st = Inl e"
proof (induction ds arbitrary: i st)
  case Nil
  then show ?case by simp
next
  case (Cons d ds)
  show ?case
  proof (cases "point_dof d = PointDOF_Z")
    case True
    then show ?thesis
      by (cases "getPointInfo md (point_index d)") (simp_all add: Let_def)
  next
    case False
    with Cons.prems have "\<exists>d \<in> set ds. point_dof d = PointDOF_Z" by simp
    from Cons.IH[OF this] show ?thesis
      by (cases "getPointInfo md (point_index d)"; cases "point_dof d";
          cases "vec_at (snd st) (point_index d)")
         (simp_all add: Let_def)
  qed
qed

lemma add_relative_constraints_ok:
  "UnknownRelativeDOF \<notin> set rs \<Longrightarrow>
   \<exists>cs' r2i'. add_relative_constraints nE rs i (cs, r2i) = Inr (cs', r2i') \<and> length r2i' = length r2i"
proof (induction rs arbitrary: i cs r2i)
  case Nil
  then show ?case by simp
next
  case (Cons r rs)
  have ih: "\<exists>cs' r2i'. add_relative_constraints nE rs (Suc i) (c, r2i[i := v]) = Inr (cs', r2i')
              \<and> length r2i' = length r2i" for c v
    using Cons.IH[of "Suc i" c "r2i[i := v]"] Cons.prems by simp
  show ?case
    using Cons.prems ih by (cases r) (simp_all add: Let_def)
qed

lemma add_relative_constraints_unknown:
  "UnknownRelativeDOF \<in> set rs \<Longrightarrow>
   add_relative_constraints nE rs i st = Inl UnknownRelativeCoordinate"
proof (induction rs arbitrary: i st)
  case Nil
  then show ?case by simp
next
  case (Cons r rs)
  then show ?case by (cases r) (auto simp: Let_def)
qed


lemma all_fixed_no_dofs:
  "\<forall>pt \<in> set pts. fixed pt \<Longrightarrow> collect_natural_dofs pts i acc = acc"
  by (induction pts arbitrary: i acc) simp_all

lemma columns_below_dof_below:
  assumes "\<forall>c \<in> set (concat (map columns_of tbl)). c < n"
  shows "list_all (\<lambda>d. dof_below n (dof_x d) \<and> dof_below n (dof_y d)) tbl"
  using assms
  by (auto simp: list_all_iff dof_below_def set_columns_of split: option.splits)

lemma columns_of_empty [simp]: "columns_of \<lparr>dof_x = None, dof_y = None\<rparr> = []"
  by (simp add: columns_of_def)

lemma concat_replicate_Nil [simp]: "concat (replicate n []) = []"
  by (induction n) simp_all

lemma ctor_ok:
  assumes ne: "DOFs armi \<noteq> []" and ok: "dofs_ok armi"
      and un: "UnknownRelativeDOF \<notin> set (rDOFs armi)"
  shows "\<exists>a. CAssembledRigidModel_ctor armi = Inr a
           \<and> length (m_q a) = length (DOFs armi) + length (rDOFs armi)
           \<and> length (m_dotq a) = length (DOFs armi) + length (rDOFs armi)
           \<and> length (m_ddotq a) = length (DOFs armi) + length (rDOFs armi)
           \<and> length (m_Q a) = length (DOFs armi) + length (rDOFs armi)
           \<and> m_parent a = model armi \<and> m_DOFs a = DOFs armi \<and> m_rDOFs a = rDOFs armi
           \<and> wf_arm a"
proof -
  let ?n = "length (DOFs armi) + length (rDOFs armi)"
  let ?t0 = "replicate (length (m_points (model armi))) \<lparr>dof_x = None, dof_y = None\<rparr>"
  have "\<exists>q' tbl'. init_natural_dofs (model armi) (DOFs armi) 0 (replicate ?n 0, ?t0) = Inr (q', tbl')
           \<and> length q' = length (replicate ?n (0::real)) \<and> length tbl' = length ?t0
           \<and> distinct (concat (map columns_of tbl'))
           \<and> (\<forall>c \<in> set (concat (map columns_of tbl')). c < 0 + length (DOFs armi))"
    using ok by (intro init_natural_dofs_ok) (simp_all add: dofs_ok_def)
  then obtain q' tbl' where
    i: "init_natural_dofs (model armi) (DOFs armi) 0 (replicate ?n 0, ?t0) = Inr (q', tbl')"
    and lq: "length q' = ?n" and lt: "length tbl' = length (m_points (model armi))"
    and d: "distinct (concat (map columns_of tbl'))"
    and c: "\<forall>c \<in> set (concat (map columns_of tbl')). c < length (DOFs armi)"
    by auto
  obtain cs' r2i' where
    r: "add_relative_constraints (length (DOFs armi)) (rDOFs armi) 0
          (getConstraints (model armi), replicate (length (rDOFs armi)) 0) = Inr (cs', r2i')"
    using add_relative_constraints_ok[OF un] by blast
  have "\<forall>c \<in> set (concat (map columns_of tbl')). c < ?n" using c by force
  then have b: "list_all (\<lambda>d. dof_below ?n (dof_x d) \<and> dof_below ?n (dof_y d)) tbl'"
    by (rule columns_below_dof_below)
  show ?thesis
    using ne lq lt d b
    by (simp add: CAssembledRigidModel_ctor_def Let_def i r wf_arm_def)
qed


lemma ctor_unknown:
  assumes "UnknownRelativeDOF \<in> set (rDOFs armi)"
  shows "\<exists>e. CAssembledRigidModel_ctor armi = Inl e"
proof (cases "init_natural_dofs (model armi) (DOFs armi) 0
          (replicate (length (DOFs armi) + length (rDOFs armi)) 0,
           replicate (length (m_points (model armi))) \<lparr>dof_x = None, dof_y = None\<rparr>)")
  case (Inl e)
  then show ?thesis by (simp add: CAssembledRigidModel_ctor_def Let_def)
next
  case (Inr st)
  then show ?thesis
    by (cases st)
       (simp add: CAssembledRigidModel_ctor_def Let_def add_relative_constraints_unknown[OF assms])
qed

lemma ctor_unknown_error:
  assumes un: "UnknownRelativeDOF \<in> set (rDOFs armi)"
      and ne: "DOFs armi \<noteq> []" and ok: "dofs_ok armi"
  shows "CAssembledRigidModel_ctor armi = Inl UnknownRelativeCoordinate"
proof -
  let ?n = "length (DOFs armi) + length (rDOFs armi)"
  let ?t0 = "replicate (length (m_points (model armi))) \<lparr>dof_x = None, dof_y = None\<rparr>"
  have "\<exists>q' tbl'. init_natural_dofs (model armi) (DOFs armi) 0 (replicate ?n 0, ?t0) = Inr (q', tbl')
           \<and> length q' = length (replicate ?n (0::real)) \<and> length tbl' = length ?t0
           \<and> distinct (concat (map columns_of tbl'))
           \<and> (\<forall>c \<in> set (concat (map columns_of tbl')). c < 0 + length (DOFs armi))"
    using ok by (intro init_natural_dofs_ok) (simp_all add: dofs_ok_def)
  then obtain q' tbl' where
    i: "init_natural_dofs (model armi) (DOFs armi) 0 (replicate ?n 0, ?t0) = Inr (q', tbl')"
    by auto
  show ?thesis
    using ne
    by (simp add: CAssembledRigidModel_ctor_def Let_def i add_relative_constraints_unknown[OF un])
qed

lemma ctor_Z:
  assumes "\<exists>d \<in> set (DOFs armi). point_dof d = PointDOF_Z"
  shows "\<exists>e. CAssembledRigidModel_ctor armi = Inl e"
proof -
  obtain e where "init_natural_dofs (model armi) (DOFs armi) 0
          (replicate (length (DOFs armi) + length (rDOFs armi)) 0,
           replicate (length (m_points (model armi))) \<lparr>dof_x = None, dof_y = None\<rparr>) = Inl e"
    using init_natural_dofs_Z[OF assms] by blast
  then show ?thesis by (simp add: CAssembledRigidModel_ctor_def Let_def)
qed

lemma zero_free_points:
  assumes "\<forall>pt \<in> set (m_points md). fixed pt"
  shows "\<exists>md' e. assembleRigidMBS_model md relativeCoordinates = (md', Inl e)"
proof -
  have d: "collect_natural_dofs (m_points md) 0 [] = []"
    by (rule all_fixed_no_dofs[OF assms])
  have z: "CAssembledRigidModel_ctor armi = Inl ZeroNaturalCoordinateDOFs" if "DOFs armi = []" for armi
    using that by (simp add: CAssembledRigidModel_ctor_def)
  obtain md' r where a: "assembleRigidMBS md = (md', r)" by (cases "assembleRigidMBS md")
  show ?thesis
  proof (cases r)
    case (Inl e)
    then show ?thesis by (simp add: assembleRigidMBS_model_def a)
  next
    case (Inr armi)
    have "DOFs armi = []"
      using a Inr d
      by (auto simp: assembleRigidMBS_def Let_def split: if_splits prod.splits option.splits)
    then show ?thesis
      by (cases relativeCoordinates) (simp_all add: assembleRigidMBS_model_def a Inr z)
  qed
qed


section \<open>The derivatives of the residual by the coordinates\<close>




















subsection \<open>The columns of the two rows\<close>








lemma length_H1_row [simp]: "length (H1_row n d0 d1 li pt0 pt1 pt0vel pt1vel) = n"
  by (simp add: H1_row_def)

lemma length_H2_row [simp]: "length (H2_row n d0 d1 li pt0 pt1) = n"
  by (simp add: H2_row_def)









text \<open>A second example with a mixed pattern of free and fixed coordinates: the x of point 0
  and the y of point 1 are unknowns, the other two coordinates are fixed.\<close>

lemma slider_construction: "CAssembledRigidModel_ctor slider_armi = Inr slider_arm"
  by (simp add: slider_armi_def slider_arm_def CAssembledRigidModel_ctor_def Let_def
        getPointInfo_def vec_get_def vec_at_def pendulum_assembled_def pendulum_def)

lemma pendulum_construction: "CAssembledRigidModel_ctor pendulum_armi = Inr pendulum_arm"
  by (simp add: pendulum_armi_def pendulum_arm_def CAssembledRigidModel_ctor_def Let_def
        getPointInfo_def vec_get_def vec_at_def pendulum_assembled_def pendulum_def)





section \<open>The constraint factors and the Jacobians of the three factors\<close>

subsection \<open>Rows and their products\<close>


lemma length_row4 [simp]: "length (row4 n d0 d1 vx0 vy0 vx1 vy1) = n"
  by (simp add: row4_def)











subsection \<open>The update of the constraints\<close>



lemma distance_constraint_update [simp]:
  "distance_constraint (a\<lparr>m_q := q\<rparr>) c = distance_constraint a c"
  "distance_constraint (a\<lparr>m_dotq := dq\<rparr>) c = distance_constraint a c"
  by (cases c; simp)+



subsection \<open>The residuals of the constraint factors and their derivatives\<close>

lemma velocity_of_coordinates_same [simp]:
  "velocity_of_coordinates x y x y vx0 vy0 vx1 vy1 = 0"
  "velocity_of_coordinates x0 y0 x1 y1 vx vy vx vy = 0"
  by (simp_all add: velocity_of_coordinates_def)

lemma distance_of_coordinates_same [simp]: "distance_of_coordinates L x y x y = - (L * L)"
  by (simp add: distance_of_coordinates_def)









subsection \<open>The gyroscope factor\<close>



subsection \<open>Values on the examples\<close>






section \<open>Claims\<close>

subsection \<open>C1: the Jacobians of the factors\<close>



subsection \<open>C2: the residual of the gyroscope factor\<close>

text \<open>
  Claim C2 promises the residual for every pair of state vectors of equal positive
  length. \<open>evaluateError\<close> compares the two vectors with each other and with zero, not
  with the columns of the reverse table: for the pendulum, whose point 1 has the columns
  0 and 1, two vectors of length 1 pass both tests and the read of \<^verbatim>\<open>m_q[1]\<close> for the \<open>y\<close>
  of point 1 is outside the vector.
\<close>

theorem short_state_counterexample:
  "length [(1::real)] = length [(0::real)] \<and> 1 \<le> length [(1::real)]
   \<and> length (points (m_bodies (m_parent pendulum_arm) ! 0)) = 2
   \<and> snd (evaluateError \<lparr>m_body_idx = 0, m_reading = 1\<rparr> pendulum_arm [1] [0] False False)
       = Inl OutOfBounds"
  by (simp add: evaluateError_def getPointCurrentCoords_def getPointCurrentVelocity_def
        getPointInfo_def vec_get_def pendulum_arm_def pendulum_assembled_def pendulum_def Let_def)


text \<open>
  Claim C2 as amended. \<open>evaluateError\<close> throws when the two vectors differ in length and
  when they are empty, leaving the model as it was. For a body with two reference
  points and two vectors of equal positive length that reach every DOF column of the
  two points, it returns normally; the error vector has one element, \<open>w - m_reading\<close>,
  where \<open>w\<close> is the rate of the specification computed from the coordinates and
  velocities that the accessors read after \<open>q_k\<close>, \<open>dq_k\<close> were written into the model
  (where the two points coincide, both the rate of the specification and the returned
  value are not numbers). When the vectors have equal positive length and do not reach
  a DOF column of the two points, a DOF-indexed read is outside the vector.
\<close>

theorem evaluateError_residual:
  "(length dq_k \<noteq> length q_k \<longrightarrow>
      evaluateError f m_arm q_k dq_k wantH1 wantH2 = (m_arm, Inl InconsistentVectorLengths))
   \<and> (length dq_k = length q_k \<and> length q_k = 0 \<longrightarrow>
      evaluateError f m_arm q_k dq_k wantH1 wantH2 = (m_arm, Inl EmptyStateVector))
   \<and> (body_ok m_arm (m_body_idx f) \<and> length dq_k = length q_k \<and> 1 \<le> length q_k
       \<and> dofs_below m_arm (length q_k) (points (m_bodies (m_parent m_arm) ! m_body_idx f) ! 0)
       \<and> dofs_below m_arm (length q_k) (points (m_bodies (m_parent m_arm) ! m_body_idx f) ! 1)
       \<longrightarrow>
      (\<exists>r. snd (evaluateError f m_arm q_k dq_k wantH1 wantH2) = Inr r
         \<and> fp_map err r =
             fp_map (\<lambda>w. [w - m_reading f])
               (gyro_rate
                 (point_coords (m_arm\<lparr>m_q := q_k, m_dotq := dq_k\<rparr>)
                    (points (m_bodies (m_parent m_arm) ! m_body_idx f) ! 0))
                 (point_coords (m_arm\<lparr>m_q := q_k, m_dotq := dq_k\<rparr>)
                    (points (m_bodies (m_parent m_arm) ! m_body_idx f) ! 1))
                 (point_velocity (m_arm\<lparr>m_q := q_k, m_dotq := dq_k\<rparr>)
                    (points (m_bodies (m_parent m_arm) ! m_body_idx f) ! 0))
                 (point_velocity (m_arm\<lparr>m_q := q_k, m_dotq := dq_k\<rparr>)
                    (points (m_bodies (m_parent m_arm) ! m_body_idx f) ! 1)))))
   \<and> (body_ok m_arm (m_body_idx f) \<and> length dq_k = length q_k \<and> 1 \<le> length q_k
       \<and> \<not> (dofs_below m_arm (length q_k) (points (m_bodies (m_parent m_arm) ! m_body_idx f) ! 0)
            \<and> dofs_below m_arm (length q_k) (points (m_bodies (m_parent m_arm) ! m_body_idx f) ! 1))
       \<longrightarrow>
      snd (evaluateError f m_arm q_k dq_k wantH1 wantH2) = Inl OutOfBounds)"
proof (intro conjI impI)
  assume "length dq_k \<noteq> length q_k"
  then show "evaluateError f m_arm q_k dq_k wantH1 wantH2 = (m_arm, Inl InconsistentVectorLengths)"
    by (simp add: evaluateError_def)
next
  assume "length dq_k = length q_k \<and> length q_k = 0"
  then show "evaluateError f m_arm q_k dq_k wantH1 wantH2 = (m_arm, Inl EmptyStateVector)"
    by (simp add: evaluateError_def)
next
  assume a: "body_ok m_arm (m_body_idx f) \<and> length dq_k = length q_k \<and> 1 \<le> length q_k
       \<and> dofs_below m_arm (length q_k) (points (m_bodies (m_parent m_arm) ! m_body_idx f) ! 0)
       \<and> dofs_below m_arm (length q_k) (points (m_bodies (m_parent m_arm) ! m_body_idx f) ! 1)"
  show "\<exists>r. snd (evaluateError f m_arm q_k dq_k wantH1 wantH2) = Inr r
         \<and> fp_map err r =
             fp_map (\<lambda>w. [w - m_reading f])
               (gyro_rate
                 (point_coords (m_arm\<lparr>m_q := q_k, m_dotq := dq_k\<rparr>)
                    (points (m_bodies (m_parent m_arm) ! m_body_idx f) ! 0))
                 (point_coords (m_arm\<lparr>m_q := q_k, m_dotq := dq_k\<rparr>)
                    (points (m_bodies (m_parent m_arm) ! m_body_idx f) ! 1))
                 (point_velocity (m_arm\<lparr>m_q := q_k, m_dotq := dq_k\<rparr>)
                    (points (m_bodies (m_parent m_arm) ! m_body_idx f) ! 0))
                 (point_velocity (m_arm\<lparr>m_q := q_k, m_dotq := dq_k\<rparr>)
                    (points (m_bodies (m_parent m_arm) ! m_body_idx f) ! 1)))"
    using a by (simp add: snd_evaluateError_covered gyro_rate_code)
next
  assume a: "body_ok m_arm (m_body_idx f) \<and> length dq_k = length q_k \<and> 1 \<le> length q_k
       \<and> \<not> (dofs_below m_arm (length q_k) (points (m_bodies (m_parent m_arm) ! m_body_idx f) ! 0)
            \<and> dofs_below m_arm (length q_k) (points (m_bodies (m_parent m_arm) ! m_body_idx f) ! 1))"
  then show "snd (evaluateError f m_arm q_k dq_k wantH1 wantH2) = Inl OutOfBounds"
    by (intro snd_evaluateError_not_covered) simp_all
qed


theorem evaluateError_residual_witness:
  "evaluateError \<lparr>m_body_idx = 0, m_reading = 1\<rparr> pendulum_arm [1, 0] [0] True True
     = (pendulum_arm, Inl InconsistentVectorLengths)
   \<and> evaluateError \<lparr>m_body_idx = 0, m_reading = 1\<rparr> pendulum_arm [] [] True True
     = (pendulum_arm, Inl EmptyStateVector)
   \<and> (\<exists>r. snd (evaluateError \<lparr>m_body_idx = 0, m_reading = 1\<rparr> pendulum_arm [1, 0] [0, 3] True True)
            = Inr (Finite r) \<and> err r = [2])
   \<and> (\<exists>r. snd (evaluateError \<lparr>m_body_idx = 0, m_reading = 1\<rparr> pendulum_arm
                  [1, 0, 7] [0, 3, 9] True True)
            = Inr (Finite r) \<and> err r = [2])
   \<and> snd (evaluateError \<lparr>m_body_idx = 0, m_reading = 1\<rparr> pendulum_arm [1] [0] True True)
       = Inl OutOfBounds"
proof -
  have g: "gyro_rate (point_coords (pendulum_arm\<lparr>m_q := 1 # 0 # xs, m_dotq := 0 # 3 # ys\<rparr>) 0)
                     (point_coords (pendulum_arm\<lparr>m_q := 1 # 0 # xs, m_dotq := 0 # 3 # ys\<rparr>) (Suc 0))
                     (point_velocity (pendulum_arm\<lparr>m_q := 1 # 0 # xs, m_dotq := 0 # 3 # ys\<rparr>) 0)
                     (point_velocity (pendulum_arm\<lparr>m_q := 1 # 0 # xs, m_dotq := 0 # 3 # ys\<rparr>) (Suc 0))
           = Finite 3" for xs ys
    by (simp add: gyro_rate_def point_coords_def point_velocity_def pendulum_arm_simps
                  norm_pt_def pt_sub_def pt_scale_def rot90_def dot_def)
  have b: "points (m_bodies (m_parent pendulum_arm) ! 0) = [0, 1]"
    by (simp add: pendulum_arm_def pendulum_assembled_def pendulum_def)
  have k: "dofs_below pendulum_arm n 0" "dofs_below pendulum_arm n (Suc 0) \<longleftrightarrow> 2 \<le> n" for n
    by (auto simp: dofs_below_def dof_below_def pendulum_arm_simps)
  note T = evaluateError_residual[of _ _ "\<lparr>m_body_idx = 0, m_reading = 1\<rparr>" pendulum_arm True True]
  have "\<exists>r. snd (evaluateError \<lparr>m_body_idx = 0, m_reading = 1\<rparr> pendulum_arm [1, 0] [0, 3] True True)
            = Inr r \<and> fp_map err r = Finite [2]"
    using T[of "[0, 3]" "[1, 0]"] body_ok_pendulum_arm
    by (simp add: b g k)
  then have 3: "\<exists>r. snd (evaluateError \<lparr>m_body_idx = 0, m_reading = 1\<rparr> pendulum_arm [1, 0] [0, 3] True True)
            = Inr (Finite r) \<and> err r = [2]"
    by (auto simp: fp_map_eq_Finite)
  have "\<exists>r. snd (evaluateError \<lparr>m_body_idx = 0, m_reading = 1\<rparr> pendulum_arm
                  [1, 0, 7] [0, 3, 9] True True)
            = Inr r \<and> fp_map err r = Finite [2]"
    using T[of "[0, 3, 9]" "[1, 0, 7]"] body_ok_pendulum_arm
    by (simp add: b g k)
  then have 4: "\<exists>r. snd (evaluateError \<lparr>m_body_idx = 0, m_reading = 1\<rparr> pendulum_arm
                  [1, 0, 7] [0, 3, 9] True True)
            = Inr (Finite r) \<and> err r = [2]"
    by (auto simp: fp_map_eq_Finite)
  have 5: "snd (evaluateError \<lparr>m_body_idx = 0, m_reading = 1\<rparr> pendulum_arm [1] [0] True True)
       = Inl OutOfBounds"
    using T[of "[0]" "[1]"] body_ok_pendulum_arm
    by (simp add: b k)
  show ?thesis
    using T[of "[0]" "[1, 0]"] T[of "[]" "[]"] 3 4 5 by simp
qed


subsection \<open>C3: division by a segment of length zero\<close>

text \<open>
  Claim C3 says that a segment of length zero is reported as an error before the
  division, in the gyroscope factor and in \<open>getPointOnBodyCurrentCoords\<close>. The factor has
  no such check, and the check of \<open>getPointOnBodyCurrentCoords\<close> is an \<^verbatim>\<open>ASSERTDEB_\<close>:
  with the two points of the pendulum at the same place the factor returns normally
  with a value that is not finite, and so does \<open>getPointOnBodyCurrentCoords\<close> in a
  release build for a rod of stored length zero.
\<close>

theorem zero_length_counterexample:
  "snd (evaluateError \<lparr>m_body_idx = 0, m_reading = 1\<rparr> pendulum_arm [0, 0] [0, 3] True True)
     = Inr NonFinite
   \<and> getPointOnBodyCurrentCoords False pendulum_arm_L0 0 (TPoint2D 1 0) = Inr NonFinite"
  by (simp add: evaluateError_def getPointOnBodyCurrentCoords_def getPointCurrentCoords_def
        getPointCurrentVelocity_def getPointInfo_def
        vec_get_def pendulum_arm_L0_def pendulum_arm_def pendulum_assembled_def pendulum_def fp_inv_def
        pt_sub_def pt_scale_def norm_pt_def Let_def)


text \<open>
  Claim C3 as amended. For a well-formed model and a body with two reference points.
  \<open>getPointOnBodyCurrentCoords\<close> tests the stored length of the body in debug builds
  only: there a stored length that is not positive is a failed assertion, raised before
  the division, and a positive one is no error. In a release build it never fails, and
  with the stored length zero the division by zero is executed and the value returned
  is not finite. The gyroscope factor has no test in any build: called with two vectors
  of equal positive length that cover the state, it never fails, and when the two
  reference points coincide the division by zero is executed and the value returned is
  not finite.
\<close>

theorem zero_length_handling:
  assumes wf: "wf_arm a" and b: "body_ok a (m_body_idx f)"
  shows "(\<not> 0 < body_length (m_bodies (m_parent a) ! m_body_idx f) \<longrightarrow>
            getPointOnBodyCurrentCoords True a (m_body_idx f) relative_pt = Inl AssertionFailed)
       \<and> (0 < body_length (m_bodies (m_parent a) ! m_body_idx f) \<longrightarrow>
            (\<exists>r. getPointOnBodyCurrentCoords True a (m_body_idx f) relative_pt = Inr r))
       \<and> (body_length (m_bodies (m_parent a) ! m_body_idx f) = 0 \<longrightarrow>
            getPointOnBodyCurrentCoords False a (m_body_idx f) relative_pt = Inr NonFinite)
       \<and> (\<forall>e. getPointOnBodyCurrentCoords False a (m_body_idx f) relative_pt \<noteq> Inl e)
       \<and> (length dq_k = length q_k \<and> 1 \<le> length q_k \<and> length (m_q a) \<le> length q_k \<longrightarrow>
            (point_coords (a\<lparr>m_q := q_k, m_dotq := dq_k\<rparr>)
                 (points (m_bodies (m_parent a) ! m_body_idx f) ! 1)
               = point_coords (a\<lparr>m_q := q_k, m_dotq := dq_k\<rparr>)
                   (points (m_bodies (m_parent a) ! m_body_idx f) ! 0)
             \<longrightarrow> snd (evaluateError f a q_k dq_k wantH1 wantH2) = Inr NonFinite)
            \<and> (\<forall>e. snd (evaluateError f a q_k dq_k wantH1 wantH2) \<noteq> Inl e))"
proof -
  have i: "points (m_bodies (m_parent a) ! m_body_idx f) ! 0 < length (m_points (m_parent a))"
          "points (m_bodies (m_parent a) ! m_body_idx f) ! 1 < length (m_points (m_parent a))"
    using b by (simp_all add: body_ok_def)
  have k: "dofs_below a (length q_k) (points (m_bodies (m_parent a) ! m_body_idx f) ! 0)"
          "dofs_below a (length q_k) (points (m_bodies (m_parent a) ! m_body_idx f) ! 1)"
    if "length (m_q a) \<le> length q_k"
    using wf_arm_dofs_below_le[OF wf i(1) that] wf_arm_dofs_below_le[OF wf i(2) that] by simp_all
  show ?thesis
    by (auto simp: getPointOnBodyCurrentCoords_wf[OF wf b] snd_evaluateError_covered[OF b _ _ k]
          norm_pt_eq_0_iff)
qed


theorem zero_length_handling_witness:
  "getPointOnBodyCurrentCoords True pendulum_arm_L0 0 (TPoint2D 1 0) = Inl AssertionFailed
   \<and> getPointOnBodyCurrentCoords False pendulum_arm_L0 0 (TPoint2D 1 0) = Inr NonFinite
   \<and> (\<exists>r. getPointOnBodyCurrentCoords True pendulum_arm 0 (TPoint2D 1 0) = Inr r)
   \<and> snd (evaluateError \<lparr>m_body_idx = 0, m_reading = 1\<rparr> pendulum_arm_L0 [0, 0] [0, 3] False False)
       = Inr NonFinite"
proof -
  have b: "body_ok pendulum_arm_L0 (m_body_idx \<lparr>m_body_idx = 0, m_reading = 1\<rparr>)"
    by (simp add: body_ok_pendulum_arm_L0)
  have b': "body_ok pendulum_arm (m_body_idx \<lparr>m_body_idx = 0, m_reading = 1\<rparr>)"
    by (simp add: body_ok_pendulum_arm)
  have L0: "body_length (m_bodies (m_parent pendulum_arm_L0) ! 0) = 0"
           "points (m_bodies (m_parent pendulum_arm_L0) ! 0) = [0, 1]"
           "m_q pendulum_arm_L0 = [1, 0]"
           "m_points2DOFs pendulum_arm_L0
              = [\<lparr>dof_x = None, dof_y = None\<rparr>, \<lparr>dof_x = Some 0, dof_y = Some 1\<rparr>]"
           "m_points (m_parent pendulum_arm_L0)
              = [\<lparr>coords = TPoint2D 0 0, fixed = True\<rparr>, \<lparr>coords = TPoint2D 1 0, fixed = False\<rparr>]"
    by (simp_all add: pendulum_arm_L0_def pendulum_arm_def pendulum_assembled_def pendulum_def)
  have L1: "body_length (m_bodies (m_parent pendulum_arm) ! 0) = 1"
    by (simp add: pendulum_arm_def pendulum_assembled_def pendulum_def)
  note T = zero_length_handling[OF wf_pendulum_arm_L0 b, of "TPoint2D 1 0" "[0, 3]" "[0, 0]" False False]
  note T' = zero_length_handling[OF wf_pendulum_arm b', of "TPoint2D 1 0" "[0, 3]" "[0, 0]" False False]
  have 3: "\<exists>r. getPointOnBodyCurrentCoords True pendulum_arm 0 (TPoint2D 1 0) = Inr r"
    using T' by (simp add: L1)
  show ?thesis
    using T 3 by (simp add: L0 point_coords_def)
qed


subsection \<open>C4: the outcomes of the constructor\<close>

text \<open>
  Claim C4 says that the constructor fails on an empty list of Euclidean DOFs, fails on
  a relative DOF of an unrecognized variant, and otherwise allocates the four vectors.
  The first loop of the constructor has a third way to fail: a Euclidean DOF whose axis
  is neither \<open>X\<close> nor \<open>Y\<close> reaches the \<^verbatim>\<open>default\<close> branch of the \<^verbatim>\<open>switch\<close> and throws. The
  pendulum with one DOF on the axis \<open>Z\<close> has a non-empty list of Euclidean DOFs and no
  relative DOF, and its construction fails.
\<close>

theorem ctor_counterexample:
  "DOFs pendulum_armi_Z \<noteq> [] \<and> UnknownRelativeDOF \<notin> set (rDOFs pendulum_armi_Z)
   \<and> CAssembledRigidModel_ctor pendulum_armi_Z = Inl UnexpectedPointDOF"
  by (simp add: pendulum_armi_Z_def CAssembledRigidModel_ctor_def Let_def getPointInfo_def
        vec_get_def pendulum_assembled_def pendulum_def)


text \<open>
  Claim C4 as amended. The constructor fails, and no model exists, when the list of
  Euclidean DOFs is empty, when a relative DOF is of an unrecognized variant, and when
  a Euclidean DOF names the axis \<open>Z\<close>. When the list of Euclidean DOFs is not empty, each
  of its entries names the axis \<open>X\<close> or \<open>Y\<close> of a point of the model and every relative
  DOF is of a known variant, it succeeds with \<open>q\<close>, \<open>dotq\<close>, \<open>ddotq\<close> and \<open>Q\<close> of length
  \<open>|DOFs| + |rDOFs|\<close>, and the model is well-formed. Assembling a definition all of whose
  points are fixed fails.
\<close>

theorem ctor_outcomes:
  "(DOFs armi = [] \<longrightarrow> CAssembledRigidModel_ctor armi = Inl ZeroNaturalCoordinateDOFs)
   \<and> (UnknownRelativeDOF \<in> set (rDOFs armi) \<longrightarrow> (\<exists>e. CAssembledRigidModel_ctor armi = Inl e))
   \<and> (UnknownRelativeDOF \<in> set (rDOFs armi) \<and> DOFs armi \<noteq> [] \<and> dofs_ok armi \<longrightarrow>
        CAssembledRigidModel_ctor armi = Inl UnknownRelativeCoordinate)
   \<and> ((\<exists>d \<in> set (DOFs armi). point_dof d = PointDOF_Z) \<longrightarrow>
        (\<exists>e. CAssembledRigidModel_ctor armi = Inl e))
   \<and> (DOFs armi \<noteq> [] \<and> dofs_ok armi \<and> UnknownRelativeDOF \<notin> set (rDOFs armi) \<longrightarrow>
        (\<exists>a. CAssembledRigidModel_ctor armi = Inr a
           \<and> length (m_q a) = length (DOFs armi) + length (rDOFs armi)
           \<and> length (m_dotq a) = length (DOFs armi) + length (rDOFs armi)
           \<and> length (m_ddotq a) = length (DOFs armi) + length (rDOFs armi)
           \<and> length (m_Q a) = length (DOFs armi) + length (rDOFs armi)
           \<and> m_parent a = model armi \<and> m_DOFs a = DOFs armi \<and> m_rDOFs a = rDOFs armi
           \<and> wf_arm a))
   \<and> ((\<forall>pt \<in> set (m_points md). fixed pt) \<longrightarrow>
        (\<exists>md' e. assembleRigidMBS_model md relativeCoordinates = (md', Inl e)))"
proof (intro conjI impI)
  assume "DOFs armi = []"
  then show "CAssembledRigidModel_ctor armi = Inl ZeroNaturalCoordinateDOFs"
    by (simp add: CAssembledRigidModel_ctor_def)
next
  assume "UnknownRelativeDOF \<in> set (rDOFs armi)"
  then show "\<exists>e. CAssembledRigidModel_ctor armi = Inl e" by (rule ctor_unknown)
next
  assume "UnknownRelativeDOF \<in> set (rDOFs armi) \<and> DOFs armi \<noteq> [] \<and> dofs_ok armi"
  then show "CAssembledRigidModel_ctor armi = Inl UnknownRelativeCoordinate"
    by (simp add: ctor_unknown_error)
next
  assume "\<exists>d \<in> set (DOFs armi). point_dof d = PointDOF_Z"
  then show "\<exists>e. CAssembledRigidModel_ctor armi = Inl e" by (rule ctor_Z)
next
  assume "DOFs armi \<noteq> [] \<and> dofs_ok armi \<and> UnknownRelativeDOF \<notin> set (rDOFs armi)"
  then show "\<exists>a. CAssembledRigidModel_ctor armi = Inr a
           \<and> length (m_q a) = length (DOFs armi) + length (rDOFs armi)
           \<and> length (m_dotq a) = length (DOFs armi) + length (rDOFs armi)
           \<and> length (m_ddotq a) = length (DOFs armi) + length (rDOFs armi)
           \<and> length (m_Q a) = length (DOFs armi) + length (rDOFs armi)
           \<and> m_parent a = model armi \<and> m_DOFs a = DOFs armi \<and> m_rDOFs a = rDOFs armi
           \<and> wf_arm a"
    by (intro ctor_ok) simp_all
next
  assume "\<forall>pt \<in> set (m_points md). fixed pt"
  then show "\<exists>md' e. assembleRigidMBS_model md relativeCoordinates = (md', Inl e)"
    by (rule zero_free_points)
qed

theorem ctor_outcomes_witness:
  "CAssembledRigidModel_ctor (pendulum_armi\<lparr>DOFs := []\<rparr>) = Inl ZeroNaturalCoordinateDOFs
   \<and> CAssembledRigidModel_ctor (pendulum_armi\<lparr>rDOFs := [UnknownRelativeDOF]\<rparr>)
        = Inl UnknownRelativeCoordinate
   \<and> (\<exists>e. CAssembledRigidModel_ctor pendulum_armi_Z = Inl e)
   \<and> (\<exists>a. CAssembledRigidModel_ctor (pendulum_armi\<lparr>rDOFs := [RelativeAngleAbsoluteDOF 0 1]\<rparr>) = Inr a
          \<and> length (m_q a) = 3 \<and> length (m_dotq a) = 3 \<and> length (m_ddotq a) = 3
          \<and> length (m_Q a) = 3)
   \<and> (\<exists>md' e. assembleRigidMBS_model
                  (pendulum\<lparr>m_points := [\<lparr>coords = TPoint2D 0 0, fixed = True\<rparr>,
                                          \<lparr>coords = TPoint2D 1 0, fixed = True\<rparr>]\<rparr>) None
                = (md', Inl e))"
proof -
  have ok: "dofs_ok (pendulum_armi\<lparr>rDOFs := r\<rparr>)" for r
    by (simp add: dofs_ok_def pendulum_armi_def pendulum_assembled_def pendulum_def)
  have ne: "DOFs (pendulum_armi\<lparr>rDOFs := r\<rparr>) \<noteq> []" for r
    by (simp add: pendulum_armi_def)
  have 1: "CAssembledRigidModel_ctor (pendulum_armi\<lparr>DOFs := []\<rparr>) = Inl ZeroNaturalCoordinateDOFs"
    using ctor_outcomes[of "pendulum_armi\<lparr>DOFs := []\<rparr>"] by simp
  have 2: "CAssembledRigidModel_ctor (pendulum_armi\<lparr>rDOFs := [UnknownRelativeDOF]\<rparr>)
        = Inl UnknownRelativeCoordinate"
    using ctor_outcomes[of "pendulum_armi\<lparr>rDOFs := [UnknownRelativeDOF]\<rparr>"] ok ne by simp
  have 3: "\<exists>e. CAssembledRigidModel_ctor pendulum_armi_Z = Inl e"
    using ctor_outcomes[of pendulum_armi_Z] by (simp add: pendulum_armi_Z_def)
  have 4: "\<exists>a. CAssembledRigidModel_ctor (pendulum_armi\<lparr>rDOFs := [RelativeAngleAbsoluteDOF 0 1]\<rparr>) = Inr a
          \<and> length (m_q a) = 3 \<and> length (m_dotq a) = 3 \<and> length (m_ddotq a) = 3
          \<and> length (m_Q a) = 3"
    using ctor_outcomes[of "pendulum_armi\<lparr>rDOFs := [RelativeAngleAbsoluteDOF 0 1]\<rparr>" pendulum None]
      ok ne
    by (auto simp: pendulum_armi_def numeral_3_eq_3)
  have 5: "\<exists>md' e. assembleRigidMBS_model
                  (pendulum\<lparr>m_points := [\<lparr>coords = TPoint2D 0 0, fixed = True\<rparr>,
                                          \<lparr>coords = TPoint2D 1 0, fixed = True\<rparr>]\<rparr>) None
                = (md', Inl e)"
    using ctor_outcomes[of _ "pendulum\<lparr>m_points := [\<lparr>coords = TPoint2D 0 0, fixed = True\<rparr>,
                                          \<lparr>coords = TPoint2D 1 0, fixed = True\<rparr>]\<rparr>" None]
    by simp
  show ?thesis using 1 2 3 4 5 by blast
qed

subsection \<open>C5: the point accessors\<close>

text \<open>
  Claim C5. In a well-formed assembled model and for every index of the point table,
  \<open>getPointCurrentCoords\<close> returns, per axis, the entry of \<open>q\<close> at the column of the axis
  when the axis is a DOF and the static coordinate of the point otherwise;
  \<open>getPointCurrentVelocity\<close> returns the entry of \<open>dotq\<close> for a free axis and \<open>0\<close> for a
  fixed one; and a value written into \<open>q\<close> (into \<open>dotq\<close>) at the column of a free axis is
  the value the accessor reads back.
\<close>

theorem point_accessors:
  assumes wf: "wf_arm a" and p: "pt_idx < length (m_points (m_parent a))"
  shows "getPointCurrentCoords a pt_idx =
           Inr (TPoint2D
                 (case dof_x (m_points2DOFs a ! pt_idx) of
                    Some i \<Rightarrow> m_q a ! i
                  | None \<Rightarrow> px (coords (m_points (m_parent a) ! pt_idx)))
                 (case dof_y (m_points2DOFs a ! pt_idx) of
                    Some i \<Rightarrow> m_q a ! i
                  | None \<Rightarrow> py (coords (m_points (m_parent a) ! pt_idx))))
       \<and> getPointCurrentVelocity a pt_idx =
           Inr (TPoint2D
                 (case dof_x (m_points2DOFs a ! pt_idx) of Some i \<Rightarrow> m_dotq a ! i | None \<Rightarrow> 0)
                 (case dof_y (m_points2DOFs a ! pt_idx) of Some i \<Rightarrow> m_dotq a ! i | None \<Rightarrow> 0))
       \<and> (\<forall>i v. dof_x (m_points2DOFs a ! pt_idx) = Some i \<longrightarrow>
             (\<exists>c. getPointCurrentCoords (a\<lparr>m_q := (m_q a)[i := v]\<rparr>) pt_idx = Inr c \<and> px c = v) \<and>
             (\<exists>c. getPointCurrentVelocity (a\<lparr>m_dotq := (m_dotq a)[i := v]\<rparr>) pt_idx = Inr c
                  \<and> px c = v))
       \<and> (\<forall>i v. dof_y (m_points2DOFs a ! pt_idx) = Some i \<longrightarrow>
             (\<exists>c. getPointCurrentCoords (a\<lparr>m_q := (m_q a)[i := v]\<rparr>) pt_idx = Inr c \<and> py c = v) \<and>
             (\<exists>c. getPointCurrentVelocity (a\<lparr>m_dotq := (m_dotq a)[i := v]\<rparr>) pt_idx = Inr c
                  \<and> py c = v))"
proof (intro conjI allI impI)
  show "getPointCurrentCoords a pt_idx =
           Inr (TPoint2D
                 (case dof_x (m_points2DOFs a ! pt_idx) of
                    Some i \<Rightarrow> m_q a ! i
                  | None \<Rightarrow> px (coords (m_points (m_parent a) ! pt_idx)))
                 (case dof_y (m_points2DOFs a ! pt_idx) of
                    Some i \<Rightarrow> m_q a ! i
                  | None \<Rightarrow> py (coords (m_points (m_parent a) ! pt_idx))))"
    by (rule getPointCurrentCoords_wf[OF wf p])
  show "getPointCurrentVelocity a pt_idx =
           Inr (TPoint2D
                 (case dof_x (m_points2DOFs a ! pt_idx) of Some i \<Rightarrow> m_dotq a ! i | None \<Rightarrow> 0)
                 (case dof_y (m_points2DOFs a ! pt_idx) of Some i \<Rightarrow> m_dotq a ! i | None \<Rightarrow> 0))"
    by (rule getPointCurrentVelocity_wf[OF wf p])
next
  fix i v
  have len: "length (m_dotq a) = length (m_q a)" using wf by (simp add: wf_arm_def)
  have wq: "wf_arm (a\<lparr>m_q := (m_q a)[i := v]\<rparr>)" by (rule wf_arm_set_q[OF wf]) simp
  have wd: "wf_arm (a\<lparr>m_dotq := (m_dotq a)[i := v]\<rparr>)"
    by (rule wf_arm_set_dotq[OF wf]) (simp add: len)
  {
    assume dx: "dof_x (m_points2DOFs a ! pt_idx) = Some i"
    then have i: "i < length (m_q a)" using wf_arm_dofs(1)[OF wf p] by simp
    show "\<exists>c. getPointCurrentCoords (a\<lparr>m_q := (m_q a)[i := v]\<rparr>) pt_idx = Inr c \<and> px c = v"
      using dx i p by (simp add: getPointCurrentCoords_wf[OF wq])
    show "\<exists>c. getPointCurrentVelocity (a\<lparr>m_dotq := (m_dotq a)[i := v]\<rparr>) pt_idx = Inr c \<and> px c = v"
      using dx i len p by (simp add: getPointCurrentVelocity_wf[OF wd])
  }
  {
    assume dy: "dof_y (m_points2DOFs a ! pt_idx) = Some i"
    then have i: "i < length (m_q a)" using wf_arm_dofs(2)[OF wf p] by simp
    show "\<exists>c. getPointCurrentCoords (a\<lparr>m_q := (m_q a)[i := v]\<rparr>) pt_idx = Inr c \<and> py c = v"
      using dy i p by (simp add: getPointCurrentCoords_wf[OF wq])
    show "\<exists>c. getPointCurrentVelocity (a\<lparr>m_dotq := (m_dotq a)[i := v]\<rparr>) pt_idx = Inr c \<and> py c = v"
      using dy i len p by (simp add: getPointCurrentVelocity_wf[OF wd])
  }
qed

theorem point_accessors_witness:
  "wf_arm pendulum_arm \<and> (1::nat) < length (m_points (m_parent pendulum_arm))
   \<and> getPointCurrentCoords pendulum_arm 0 = Inr (TPoint2D 0 0)
   \<and> getPointCurrentCoords pendulum_arm 1 = Inr (TPoint2D 1 0)
   \<and> getPointCurrentVelocity pendulum_arm 1 = Inr (TPoint2D 0 0)
   \<and> (\<exists>c. getPointCurrentCoords (pendulum_arm\<lparr>m_q := [1, 7]\<rparr>) 1 = Inr c \<and> py c = 7)
   \<and> (\<exists>c. getPointCurrentVelocity (pendulum_arm\<lparr>m_dotq := [5, 0]\<rparr>) 1 = Inr c \<and> px c = 5)"
proof -
  have p0: "(0::nat) < length (m_points (m_parent pendulum_arm))"
   and p1: "(1::nat) < length (m_points (m_parent pendulum_arm))"
    by (simp_all add: pendulum_arm_simps)
  show ?thesis
    using point_accessors[OF wf_pendulum_arm p0] point_accessors[OF wf_pendulum_arm p1] p1
      wf_pendulum_arm
    by (simp add: pendulum_arm_simps)
qed

subsection \<open>C6: a point fixed to a body\<close>

text \<open>
  Claim C6 says that \<open>getPointOnBodyCurrentCoords\<close> returns \<open>p0 + x \<cdot> u + y \<cdot> v\<close> with \<open>u\<close> the
  unit vector \<open>(p1 - p0) / |p1 - p0|\<close> of the current coordinates, and that it fails on a
  segment of length zero. The function divides by the stored length \<open>b.length()\<close> of the
  body, not by the distance of the two points. With the free point of the pendulum
  moved to \<open>(2, 0)\<close>, the rod of stored length 1 and the offset \<open>(1, 0)\<close>, the formula of
  the claim gives \<open>(1, 0)\<close> and the function returns \<open>(2, 0)\<close>; with the free point moved
  onto the fixed one, the segment has length zero and the function returns a point.
\<close>

theorem getPointOnBodyCurrentCoords_counterexample:
  "getPointCurrentCoords (pendulum_arm\<lparr>m_q := [2, 0]\<rparr>) 0 = Inr (TPoint2D 0 0)
   \<and> getPointCurrentCoords (pendulum_arm\<lparr>m_q := [2, 0]\<rparr>) 1 = Inr (TPoint2D 2 0)
   \<and> 0 < norm_pt (pt_sub (TPoint2D 2 0) (TPoint2D 0 0))
   \<and> body_point_spec (TPoint2D 0 0) (TPoint2D 2 0) (TPoint2D 1 0) = TPoint2D 1 0
   \<and> getPointOnBodyCurrentCoords False (pendulum_arm\<lparr>m_q := [2, 0]\<rparr>) 0 (TPoint2D 1 0)
       = Inr (Finite (TPoint2D 2 0))
   \<and> getPointOnBodyCurrentCoords True (pendulum_arm\<lparr>m_q := [2, 0]\<rparr>) 0 (TPoint2D 1 0)
       = Inr (Finite (TPoint2D 2 0))
   \<and> getPointCurrentCoords (pendulum_arm\<lparr>m_q := [0, 0]\<rparr>) 0 = Inr (TPoint2D 0 0)
   \<and> getPointCurrentCoords (pendulum_arm\<lparr>m_q := [0, 0]\<rparr>) 1 = Inr (TPoint2D 0 0)
   \<and> getPointOnBodyCurrentCoords True (pendulum_arm\<lparr>m_q := [0, 0]\<rparr>) 0 (TPoint2D 1 0)
       = Inr (Finite (TPoint2D 0 0))"
  by (simp add: getPointOnBodyCurrentCoords_def getPointCurrentCoords_def getPointInfo_def
        vec_get_def pendulum_arm_def pendulum_assembled_def pendulum_def fp_inv_def
        pt_sub_def pt_scale_def norm_pt_def body_point_spec_def rot90_def Let_def)



text \<open>
  Claim C6 as amended. For a well-formed model and a body with two reference points,
  the function returns \<open>p0 + x \<cdot> u + y \<cdot> v\<close> with \<open>u = (p1 - p0) / L\<close>, \<open>L\<close> the stored
  length of the body, and \<open>v\<close> the rotation of \<open>u\<close> by +90 degrees; this is the formula of
  the claim whenever the distance of the two points is \<open>L\<close>. It fails, in debug builds
  only, when \<open>L\<close> is not positive; in a release build \<open>L = 0\<close> gives a result that is not
  finite.
\<close>

theorem getPointOnBodyCurrentCoords_stored_length:
  assumes wf: "wf_arm a" and b: "body_ok a body_index"
  shows "(debug \<and> \<not> 0 < body_length (m_bodies (m_parent a) ! body_index) \<longrightarrow>
            getPointOnBodyCurrentCoords debug a body_index relative_pt = Inl AssertionFailed)
       \<and> (\<not> debug \<and> body_length (m_bodies (m_parent a) ! body_index) = 0 \<longrightarrow>
            getPointOnBodyCurrentCoords debug a body_index relative_pt = Inr NonFinite)
       \<and> (body_length (m_bodies (m_parent a) ! body_index) \<noteq> 0
            \<and> (debug \<longrightarrow> 0 < body_length (m_bodies (m_parent a) ! body_index)) \<longrightarrow>
            getPointOnBodyCurrentCoords debug a body_index relative_pt =
              Inr (Finite (body_point_stored
                     (point_coords a (points (m_bodies (m_parent a) ! body_index) ! 0))
                     (point_coords a (points (m_bodies (m_parent a) ! body_index) ! 1))
                     (body_length (m_bodies (m_parent a) ! body_index)) relative_pt)))
       \<and> (0 < body_length (m_bodies (m_parent a) ! body_index)
            \<and> norm_pt (pt_sub (point_coords a (points (m_bodies (m_parent a) ! body_index) ! 1))
                               (point_coords a (points (m_bodies (m_parent a) ! body_index) ! 0)))
                = body_length (m_bodies (m_parent a) ! body_index) \<longrightarrow>
            getPointOnBodyCurrentCoords debug a body_index relative_pt =
              Inr (Finite (body_point_spec
                     (point_coords a (points (m_bodies (m_parent a) ! body_index) ! 0))
                     (point_coords a (points (m_bodies (m_parent a) ! body_index) ! 1))
                     relative_pt)))"
  by (auto simp: getPointOnBodyCurrentCoords_wf[OF wf b] body_point_spec_def body_point_stored_def)

theorem getPointOnBodyCurrentCoords_stored_length_witness:
  "getPointOnBodyCurrentCoords True pendulum_arm_L0 0 (TPoint2D 1 0) = Inl AssertionFailed
   \<and> getPointOnBodyCurrentCoords False pendulum_arm_L0 0 (TPoint2D 1 0) = Inr NonFinite
   \<and> getPointOnBodyCurrentCoords True (pendulum_arm\<lparr>m_q := [2, 0]\<rparr>) 0 (TPoint2D 1 0)
       = Inr (Finite (TPoint2D 2 0))
   \<and> getPointOnBodyCurrentCoords True pendulum_arm 0 (TPoint2D 1 0)
       = Inr (Finite (TPoint2D 1 0))
   \<and> body_point_spec (TPoint2D 0 0) (TPoint2D 1 0) (TPoint2D 1 0) = TPoint2D 1 0"
proof -
  have w2: "wf_arm (pendulum_arm\<lparr>m_q := [2, 0]\<rparr>)"
    by (rule wf_arm_set_q[OF wf_pendulum_arm]) (simp add: pendulum_arm_simps)
  have b2: "body_ok (pendulum_arm\<lparr>m_q := [2, 0]\<rparr>) 0"
    by (simp add: body_ok_pendulum_arm)
  have L0: "body_length (m_bodies (m_parent pendulum_arm_L0) ! 0) = 0"
    by (simp add: pendulum_arm_L0_def pendulum_assembled_def pendulum_def)
  have L1: "body_length (m_bodies (m_parent pendulum_arm) ! 0) = 1"
           "points (m_bodies (m_parent pendulum_arm) ! 0) = [0, 1]"
    by (simp_all add: pendulum_arm_def pendulum_assembled_def pendulum_def)
  have 1: "getPointOnBodyCurrentCoords True pendulum_arm_L0 0 (TPoint2D 1 0) = Inl AssertionFailed"
    using getPointOnBodyCurrentCoords_stored_length
            [OF wf_pendulum_arm_L0 body_ok_pendulum_arm_L0, of True "TPoint2D 1 0"]
    by (simp add: L0)
  have 2: "getPointOnBodyCurrentCoords False pendulum_arm_L0 0 (TPoint2D 1 0) = Inr NonFinite"
    using getPointOnBodyCurrentCoords_stored_length
            [OF wf_pendulum_arm_L0 body_ok_pendulum_arm_L0, of False "TPoint2D 1 0"]
    by (simp add: L0)
  have 3: "getPointOnBodyCurrentCoords True (pendulum_arm\<lparr>m_q := [2, 0]\<rparr>) 0 (TPoint2D 1 0)
       = Inr (Finite (TPoint2D 2 0))"
    using getPointOnBodyCurrentCoords_stored_length[OF w2 b2, of True "TPoint2D 1 0"]
    by (simp add: L1 point_coords_def pendulum_arm_simps body_point_stored_def pt_sub_def
          pt_scale_def rot90_def)
  have 5: "body_point_spec (TPoint2D 0 0) (TPoint2D 1 0) (TPoint2D 1 0) = TPoint2D 1 0"
    by (simp add: body_point_spec_def norm_pt_def pt_sub_def pt_scale_def rot90_def)
  have 4: "getPointOnBodyCurrentCoords True pendulum_arm 0 (TPoint2D 1 0)
       = Inr (Finite (TPoint2D 1 0))"
    using getPointOnBodyCurrentCoords_stored_length
            [OF wf_pendulum_arm body_ok_pendulum_arm, of True "TPoint2D 1 0"]
    by (simp add: L1 point_coords_def pendulum_arm_simps body_point_stored_def pt_sub_def
          pt_scale_def rot90_def)
  show ?thesis using 1 2 3 4 5 by simp
qed


subsection \<open>C7: copying the state\<close>

text \<open>
  Claim C7. For two assembled models of the same definition (same parent, same reverse
  table, vectors of the same sizes), \<open>copyStateFrom\<close> succeeds, in debug and in release
  builds; afterwards \<open>q\<close> and \<open>dotq\<close> of this model are those of the other one, both
  accessors agree on the two models at every point, and this model differs from what
  it was in \<open>q\<close> and \<open>dotq\<close> only. The other model is an argument that is only read.
\<close>

theorem copyStateFrom_copies_state:
  assumes "length (m_q this) = length (m_q other)"
      and "length (m_dotq this) = length (m_dotq other)"
      and "length (m_DOFs this) = length (m_DOFs other)"
      and "length (m_Phi this) = length (m_Phi other)"
      and "m_parent this = m_parent other"
      and "m_points2DOFs this = m_points2DOFs other"
  shows "\<exists>this'. copyStateFrom debug this other = Inr this'
           \<and> m_q this' = m_q other \<and> m_dotq this' = m_dotq other
           \<and> (\<forall>p. getPointCurrentCoords this' p = getPointCurrentCoords other p
                  \<and> getPointCurrentVelocity this' p = getPointCurrentVelocity other p)
           \<and> m_DOFs this' = m_DOFs this \<and> m_rDOFs this' = m_rDOFs this
           \<and> m_points2DOFs this' = m_points2DOFs this
           \<and> this' = this\<lparr>m_q := m_q other, m_dotq := m_dotq other\<rparr>"
  using assms
  by (auto simp: copyStateFrom_def intro!: getPointCurrentCoords_cong getPointCurrentVelocity_cong)

theorem copyStateFrom_copies_state_witness:
  "copyStateFrom True (pendulum_arm\<lparr>m_q := [3, 4], m_dotq := [5, 6]\<rparr>) pendulum_arm
     = Inr pendulum_arm
   \<and> getPointCurrentCoords (pendulum_arm\<lparr>m_q := [3, 4], m_dotq := [5, 6]\<rparr>) 1
       \<noteq> getPointCurrentCoords pendulum_arm 1"
proof -
  have neq: "getPointCurrentCoords (pendulum_arm\<lparr>m_q := [3, 4], m_dotq := [5, 6]\<rparr>) 1
       \<noteq> getPointCurrentCoords pendulum_arm 1"
    by (simp add: getPointCurrentCoords_def getPointInfo_def vec_get_def pendulum_arm_simps)
  show ?thesis
    using copyStateFrom_copies_state
            [of "pendulum_arm\<lparr>m_q := [3, 4], m_dotq := [5, 6]\<rparr>" pendulum_arm True] neq
    by (auto simp: pendulum_arm_simps)
qed


subsection \<open>C8: the energy\<close>

text \<open>
  Claim C8. For a well-formed model whose bodies have two reference points each (and,
  in a debug build, a positive stored length each), \<open>evaluateEnergy\<close> returns; the
  potential energy is the sum over the bodies of \<open>- (mass \<cdot> (gravity \<cdot> cog))\<close> with the
  centre of gravity that \<open>getPointOnBodyCurrentCoords\<close> reconstructs; the total energy is
  the kinetic plus the potential energy; and the kinetic energy is \<open>0\<close> when every point
  velocity that can be read is zero.
\<close>

theorem evaluateEnergy_values:
  assumes wf: "wf_arm a"
      and ok: "\<forall>i < length (m_bodies (m_parent a)). body_ok a i"
      and dbg: "debug \<longrightarrow> (\<forall>i < length (m_bodies (m_parent a)). 0 < body_length (m_bodies (m_parent a) ! i))"
  shows "\<exists>e. evaluateEnergy debug a = Inr e
           \<and> E_pot e = potential_spec debug a
           \<and> E_total e = fp_add (Finite (E_kin e)) (E_pot e)
           \<and> ((\<forall>p v. getPointCurrentVelocity a p = Inr v \<longrightarrow> v = TPoint2D 0 0) \<longrightarrow> E_kin e = 0)"
proof -
  obtain k p where r: "energy_loop debug a [0 ..< length (m_bodies (m_parent a))] (0, Finite 0) = Inr (k, p)"
    using energy_loop_total[OF wf, of "[0 ..< length (m_bodies (m_parent a))]" debug "(0, Finite 0)"] ok dbg
    by auto
  have p: "p = potential_spec debug a"
    using energy_loop_pot[OF r] by (simp add: potential_spec_def weight_term_gravity)
  have k: "(\<forall>p v. getPointCurrentVelocity a p = Inr v \<longrightarrow> v = TPoint2D 0 0) \<longrightarrow> k = 0"
    using energy_loop_kin_zero[OF _ r] by blast
  show ?thesis
    using p k by (simp add: evaluateEnergy_def r)
qed


theorem evaluateEnergy_values_witness:
  "\<exists>e. evaluateEnergy True (pendulum_arm\<lparr>m_q := [0, - 1]\<rparr>) = Inr e
       \<and> E_kin e = 0 \<and> E_pot e = Finite (- 981 / 100) \<and> E_total e = Finite (- 981 / 100)"
proof -
  have w: "wf_arm (pendulum_arm\<lparr>m_q := [0, - 1]\<rparr>)"
    by (rule wf_arm_set_q[OF wf_pendulum_arm]) (simp add: pendulum_arm_simps)
  have bs: "m_bodies (m_parent pendulum_arm) = m_bodies pendulum"
    by (simp add: pendulum_arm_def pendulum_assembled_def)
  have ok: "\<forall>i < length (m_bodies (m_parent (pendulum_arm\<lparr>m_q := [0, - 1]\<rparr>))).
              body_ok (pendulum_arm\<lparr>m_q := [0, - 1]\<rparr>) i"
    using body_ok_pendulum_arm by (simp add: bs pendulum_def)
  have dbg: "True \<longrightarrow> (\<forall>i < length (m_bodies (m_parent (pendulum_arm\<lparr>m_q := [0, - 1]\<rparr>))).
              0 < body_length (m_bodies (m_parent (pendulum_arm\<lparr>m_q := [0, - 1]\<rparr>)) ! i))"
    by (simp add: bs pendulum_def)
  have b: "body_ok (pendulum_arm\<lparr>m_q := [0, - 1]\<rparr>) 0"
    using body_ok_pendulum_arm by simp
  have body: "m_bodies (m_parent pendulum_arm)
               = [\<lparr>points = [0, 1], body_length = 1, mass = 2, cog = TPoint2D (1/2) 0,
                    getM00 = Matrix2d (2/3) 0 0 (2/3),
                    getM01 = Matrix2d (1/3) 0 0 (1/3),
                    getM11 = Matrix2d (2/3) 0 0 (2/3)\<rparr>]"
    by (simp add: bs pendulum_def)
  have g: "m_gravity pendulum_arm = (0, - 981 / 100, 0)"
    by (simp add: pendulum_arm_def DEFAULT_GRAVITY_def)
  have c: "getPointOnBodyCurrentCoords True (pendulum_arm\<lparr>m_q := [0, - 1]\<rparr>) 0 (TPoint2D (1/2) 0)
             = Inr (Finite (TPoint2D 0 (- 1 / 2)))"
    by (simp add: getPointOnBodyCurrentCoords_wf[OF w b] body body_point_stored_def
          point_coords_def pendulum_arm_simps pt_sub_def pt_scale_def rot90_def)
  have pot: "potential_spec True (pendulum_arm\<lparr>m_q := [0, - 1]\<rparr>) = Finite (- 981 / 100)"
    by (simp add: potential_spec_def body_cog_def body g c)
  show ?thesis
    using evaluateEnergy_values[OF w ok dbg] pendulum_at_rest
    by (auto simp: pot)
qed

subsection \<open>C9: the closure constraints of the first assembly\<close>

text \<open>
  Claim C9 gives every generated constraint the initial distance of its two points for
  length. For a body of two points the assembly passes the stored length of the body
  instead (\<^verbatim>\<open>b.length()\<close>): the rod of the pendulum below has the stored length 5 and its
  two points are at distance 1; the constraint that the assembly adds has the length 5,
  the constraint of the claim the length 1.
\<close>

theorem closure_length_counterexample:
  "getConstraints (fst (assembleRigidMBS long_rod_pendulum)) = [ConstraintConstantDistance 0 1 5]
   \<and> concat (map (closure_constraints_claimed (m_points long_rod_pendulum))
                 (m_bodies long_rod_pendulum))
       = [ConstraintConstantDistance 0 1 1]"
  by (simp add: assembleRigidMBS_def add_body_constraints_def closure_constraints_claimed_def
        closure_pairs_def initial_distance_def long_rod_pendulum_def pendulum_def
        norm_pt_def pt_sub_def vec_get_def vec_at_def Let_def)


text \<open>
  Claim C9 as amended. On the first symbolic assembly of a definition whose bodies have
  at least two points each, all of them points of the model, the assembly succeeds and
  appends to the constraints of the definition, body after body, exactly the
  constant-distance constraints of \<open>closure_constraints\<close>: the pair \<open>(0, 1)\<close> for a body of
  two points, with the stored length of the body; the pairs \<open>(0, 1)\<close>, \<open>(0, 2)\<close>, \<open>(1, 2)\<close>
  for three points and \<open>(0, 1)\<close>, then \<open>(0, j)\<close>, \<open>(1, j)\<close> for \<open>j\<close> from 2 on for four points
  or more, each with the initial distance of its two points. The assembly aborts when
  some body has fewer than two points.
\<close>

theorem assembleRigidMBS_closure_constraints:
  assumes first: "\<not> already_added_fixed_len_constraints md"
  shows "((\<forall>b \<in> set (m_bodies md).
             2 \<le> length (points b) \<and> (\<forall>p \<in> set (points b). p < length (m_points md))) \<longrightarrow>
          (\<exists>md' armi. assembleRigidMBS md = (md', Inr armi)
             \<and> getConstraints md' =
                 getConstraints md @ concat (map (closure_constraints (m_points md)) (m_bodies md))
             \<and> already_added_fixed_len_constraints md'
             \<and> model armi = md'))
       \<and> ((\<exists>b \<in> set (m_bodies md). length (points b) < 2) \<longrightarrow>
          (\<exists>md' e. assembleRigidMBS md = (md', Inl e)))"
proof (intro conjI impI)
  assume "\<forall>b \<in> set (m_bodies md).
             2 \<le> length (points b) \<and> (\<forall>p \<in> set (points b). p < length (m_points md))"
  then have "add_fixed_len_constraints (m_points md) (m_bodies md) (getConstraints md) =
      (getConstraints md @ concat (map (closure_constraints (m_points md)) (m_bodies md)), None)"
    by (intro add_fixed_len_constraints_ok) simp
  then show "\<exists>md' armi. assembleRigidMBS md = (md', Inr armi)
             \<and> getConstraints md' =
                 getConstraints md @ concat (map (closure_constraints (m_points md)) (m_bodies md))
             \<and> already_added_fixed_len_constraints md'
             \<and> model armi = md'"
    using first by (simp add: assembleRigidMBS_def Let_def)
next
  assume "\<exists>b \<in> set (m_bodies md). length (points b) < 2"
  from add_fixed_len_constraints_few[OF this]
  obtain cs' e where
    "add_fixed_len_constraints (m_points md) (m_bodies md) (getConstraints md) = (cs', Some e)"
    by blast
  then show "\<exists>md' e. assembleRigidMBS md = (md', Inl e)"
    using first by (simp add: assembleRigidMBS_def Let_def)
qed


theorem assembleRigidMBS_closure_constraints_witness:
  "(\<exists>md' armi. assembleRigidMBS plate = (md', Inr armi)
      \<and> getConstraints md' =
            [ConstraintConstantDistance 0 1 1, ConstraintConstantDistance 0 2 (sqrt 2),
             ConstraintConstantDistance 1 2 1, ConstraintConstantDistance 0 3 1,
             ConstraintConstantDistance 1 3 (sqrt 2)])
   \<and> (\<exists>md' armi. assembleRigidMBS pendulum = (md', Inr armi)
      \<and> getConstraints md' = [ConstraintConstantDistance 0 1 1])
   \<and> (\<exists>md' armi. assembleRigidMBS long_rod_pendulum = (md', Inr armi)
      \<and> getConstraints md' = [ConstraintConstantDistance 0 1 5])
   \<and> (\<exists>md' e. assembleRigidMBS one_point_body = (md', Inl e))"
proof -
  have c4: "closure_constraints (m_points plate) (m_bodies plate ! 0) =
            [ConstraintConstantDistance 0 1 1, ConstraintConstantDistance 0 2 (sqrt 2),
             ConstraintConstantDistance 1 2 1, ConstraintConstantDistance 0 3 1,
             ConstraintConstantDistance 1 3 (sqrt 2)]"
  proof -
    have len: "length (points (m_bodies plate ! 0)) = 4" by (simp add: plate_def)
    show ?thesis
      unfolding closure_constraints_def len closure_pairs_4
      by (simp add: plate_def initial_distance_def norm_pt_def pt_sub_def)
  qed
  have c2: "closure_constraints (m_points pendulum) (m_bodies pendulum ! 0) =
            [ConstraintConstantDistance 0 1 1]"
    by (simp add: closure_constraints_def pendulum_def closure_pairs_def)
  have c5: "closure_constraints (m_points long_rod_pendulum) (m_bodies long_rod_pendulum ! 0) =
            [ConstraintConstantDistance 0 1 5]"
    by (simp add: closure_constraints_def long_rod_pendulum_def pendulum_def closure_pairs_def)
  have f: "\<not> already_added_fixed_len_constraints plate"
          "\<not> already_added_fixed_len_constraints pendulum"
          "\<not> already_added_fixed_len_constraints one_point_body"
          "\<not> already_added_fixed_len_constraints long_rod_pendulum"
    by (simp_all add: plate_def pendulum_def one_point_body_def long_rod_pendulum_def)
  have b: "m_bodies plate = [m_bodies plate ! 0]" "m_bodies pendulum = [m_bodies pendulum ! 0]"
          "getConstraints plate = []" "getConstraints pendulum = []"
          "m_bodies long_rod_pendulum = [m_bodies long_rod_pendulum ! 0]"
          "getConstraints long_rod_pendulum = []"
    by (simp_all add: plate_def pendulum_def long_rod_pendulum_def)
  have 1: "\<exists>md' armi. assembleRigidMBS plate = (md', Inr armi)
      \<and> getConstraints md' =
            [ConstraintConstantDistance 0 1 1, ConstraintConstantDistance 0 2 (sqrt 2),
             ConstraintConstantDistance 1 2 1, ConstraintConstantDistance 0 3 1,
             ConstraintConstantDistance 1 3 (sqrt 2)]"
    using assembleRigidMBS_closure_constraints[OF f(1)]
    apply (subst (asm) (1 2 3) b(1))
    apply (simp add: c4 b(3))
    apply (auto simp: plate_def)
    done
  have 2: "\<exists>md' armi. assembleRigidMBS pendulum = (md', Inr armi)
      \<and> getConstraints md' = [ConstraintConstantDistance 0 1 1]"
    using assembleRigidMBS_closure_constraints[OF f(2)]
    apply (subst (asm) (1 2 3) b(2))
    apply (simp add: c2 b(4))
    apply (auto simp: pendulum_def)
    done
  have 3: "\<exists>md' e. assembleRigidMBS one_point_body = (md', Inl e)"
    using assembleRigidMBS_closure_constraints[OF f(3)]
    by (simp add: one_point_body_def)
  have 4: "\<exists>md' armi. assembleRigidMBS long_rod_pendulum = (md', Inr armi)
      \<and> getConstraints md' = [ConstraintConstantDistance 0 1 5]"
    using assembleRigidMBS_closure_constraints[OF f(4)]
    apply (subst (asm) (1 2 3) b(5))
    apply (simp add: c5 b(6))
    apply (auto simp: long_rod_pendulum_def pendulum_def)
    done
  show ?thesis using 1 2 3 4 by blast
qed

subsection \<open>C10: the factor overwrites the state of the model\<close>

text \<open>
  Claim C10. A call of \<open>evaluateError\<close> with two vectors of the same positive length
  leaves the shared model with \<open>q = q_k\<close> and \<open>dotq = dq_k\<close>, whether or not \<open>H1\<close>, \<open>H2\<close>
  are asked for and whatever the rest of the call does; the accessors then read \<open>q_k\<close>
  and \<open>dq_k\<close>, and nothing of the state held before remains.
\<close>

theorem evaluateError_overwrites_state:
  assumes "length dq_k = length q_k" and "1 \<le> length q_k"
  shows "fst (evaluateError f m_arm q_k dq_k wantH1 wantH2) = m_arm\<lparr>m_q := q_k, m_dotq := dq_k\<rparr>
       \<and> (\<forall>p. getPointCurrentCoords (fst (evaluateError f m_arm q_k dq_k wantH1 wantH2)) p
                = getPointCurrentCoords (m_arm\<lparr>m_q := q_k\<rparr>) p)
       \<and> (\<forall>p. getPointCurrentVelocity (fst (evaluateError f m_arm q_k dq_k wantH1 wantH2)) p
                = getPointCurrentVelocity (m_arm\<lparr>m_dotq := dq_k\<rparr>) p)
       \<and> (\<forall>q0 dq0. fst (evaluateError f (m_arm\<lparr>m_q := q0, m_dotq := dq0\<rparr>) q_k dq_k wantH1 wantH2)
                    = fst (evaluateError f m_arm q_k dq_k wantH1 wantH2))"
  unfolding fst_evaluateError[OF assms]
  by (auto intro!: getPointCurrentCoords_cong getPointCurrentVelocity_cong)

theorem evaluateError_overwrites_state_witness:
  "length [0, 3 :: real] = length [2, 0 :: real] \<and> 1 \<le> length [2, 0 :: real]
   \<and> fst (evaluateError \<lparr>m_body_idx = 0, m_reading = 1\<rparr> pendulum_arm [2, 0] [0, 3] False False)
       = pendulum_arm\<lparr>m_q := [2, 0], m_dotq := [0, 3]\<rparr>
   \<and> getPointCurrentCoords
        (fst (evaluateError \<lparr>m_body_idx = 0, m_reading = 1\<rparr> pendulum_arm [2, 0] [0, 3] True True)) 1
       = Inr (TPoint2D 2 0)
   \<and> getPointCurrentVelocity
        (fst (evaluateError \<lparr>m_body_idx = 0, m_reading = 1\<rparr> pendulum_arm [2, 0] [0, 3] True True)) 1
       = Inr (TPoint2D 0 3)"
proof -
  have l: "length [0, 3 :: real] = length [2, 0 :: real]" "1 \<le> length [2, 0 :: real]" by simp_all
  have c: "getPointCurrentCoords (pendulum_arm\<lparr>m_q := [2, 0]\<rparr>) 1 = Inr (TPoint2D 2 0)"
    by (simp add: getPointCurrentCoords_def getPointInfo_def vec_get_def pendulum_arm_simps)
  have v: "getPointCurrentVelocity (pendulum_arm\<lparr>m_dotq := [0, 3]\<rparr>) 1 = Inr (TPoint2D 0 3)"
    by (simp add: getPointCurrentVelocity_def vec_get_def pendulum_arm_simps)
  note T = evaluateError_overwrites_state
             [OF l, of "\<lparr>m_body_idx = 0, m_reading = 1\<rparr>" pendulum_arm True True]
  from T have tc: "getPointCurrentCoords
        (fst (evaluateError \<lparr>m_body_idx = 0, m_reading = 1\<rparr> pendulum_arm [2, 0] [0, 3] True True)) 1
       = getPointCurrentCoords (pendulum_arm\<lparr>m_q := [2, 0]\<rparr>) 1"
    by blast
  from T have tv: "getPointCurrentVelocity
        (fst (evaluateError \<lparr>m_body_idx = 0, m_reading = 1\<rparr> pendulum_arm [2, 0] [0, 3] True True)) 1
       = getPointCurrentVelocity (pendulum_arm\<lparr>m_dotq := [0, 3]\<rparr>) 1"
    by blast
  have tf: "fst (evaluateError \<lparr>m_body_idx = 0, m_reading = 1\<rparr> pendulum_arm [2, 0] [0, 3] False False)
       = pendulum_arm\<lparr>m_q := [2, 0], m_dotq := [0, 3]\<rparr>"
    using evaluateError_overwrites_state
            [OF l, of "\<lparr>m_body_idx = 0, m_reading = 1\<rparr>" pendulum_arm False False]
    by blast
  show ?thesis
    unfolding tc tv c v using tf by simp
qed

end
